theory Spec2Isabelle
  imports Complex_Main "HOL-Library.Multiset" "HOL-Library.Log_Nat"
begin

section \<open>Values crossing the native boundary\<close>

text \<open>
  The module \<open>interpret/glassbox/ebm/internal.py\<close> drives a native boosting library
  through ctypes. The library is a black box: it is modelled as a record of response
  functions over an abstract library state \<open>'e\<close>. Every call made through
  \<open>self._native.lib\<close> is also appended to a call log, so that "no call was made" and
  "the handle was released" are statements about the log. An entry carries what the
  library was called with (the handle and the indices) and what it answered with (the
  handle, the pointer, the status, the score).

  Python floats (C doubles) are modelled by \<open>pyfloat\<close>: a finite value is the real number
  it denotes, and the three special values of IEEE arithmetic are kept, since \<open>np.inf\<close>
  is the initial metric. The sum of two finite doubles is their exact sum rounded to the
  nearest double, ties to the even significand, as IEEE 754 defines it for the binary64
  format: 53 significant bits, exponents from -1022 to 1023, subnormal numbers below
  that, infinity from \<open>2^1024 - 2^970\<close> on.
\<close>

datatype pyfloat = Fin real | PInf | NInf | NaN

definition pow2 :: "int \<Rightarrow> real" where
  "pow2 k = (if 0 \<le> k then 2 ^ nat k else 1 / 2 ^ nat (- k))"

text \<open>The exponent \<open>e\<close> with \<open>2^e \<le> a < 2^(e+1)\<close>, for a positive \<open>a\<close>.\<close>

definition binary_exponent :: "real \<Rightarrow> int" where
  "binary_exponent a = (if 1 \<le> a then bitlen \<lfloor>a\<rfloor> - 1 else - bitlen (\<lceil>1 / a\<rceil> - 1))"

definition round_half_even :: "real \<Rightarrow> int" where
  "round_half_even s =
     (let n = \<lfloor>s\<rfloor>; f = s - of_int n
      in if f < 1 / 2 then n else if 1 / 2 < f then n + 1 else if even n then n else n + 1)"

text \<open>
  The double nearest to a real number: the number is scaled by the weight \<open>2^q\<close> of the
  last bit of its significand, rounded to an integer, and scaled back; a result of
  \<open>2^1024\<close> or more (binary exponent 1024 or more) is an infinity.
\<close>

definition round_double :: "real \<Rightarrow> pyfloat" where
  "round_double x =
     (if x = 0 then Fin 0
      else let a = \<bar>x\<bar>;
               q = max (binary_exponent a) (- 1022) - 52;
               r = of_int (round_half_even (a / pow2 q)) * pow2 q
           in if 1024 \<le> binary_exponent r then (if 0 < x then PInf else NInf)
              else Fin (if 0 < x then r else - r))"

text \<open>\<open>a < b\<close> on doubles: every comparison with NaN is false.\<close>

fun fless :: "pyfloat \<Rightarrow> pyfloat \<Rightarrow> bool" where
  "fless (Fin a) (Fin b) = (a < b)"
| "fless (Fin a) PInf = True"
| "fless NInf (Fin b) = True"
| "fless NInf PInf = True"
| "fless _ _ = False"

text \<open>\<open>a + b\<close> on doubles.\<close>

fun fadd :: "pyfloat \<Rightarrow> pyfloat \<Rightarrow> pyfloat" where
  "fadd (Fin a) (Fin b) = round_double (a + b)"
| "fadd NaN _ = NaN"
| "fadd _ NaN = NaN"
| "fadd PInf NInf = NaN"
| "fadd NInf PInf = NaN"
| "fadd PInf _ = PInf"
| "fadd _ PInf = PInf"
| "fadd NInf _ = NInf"
| "fadd _ NInf = NInf"

text \<open>
  Python's builtin \<open>min(a, b)\<close> keeps its first argument unless the second one is
  strictly smaller.
\<close>

definition py_min :: "pyfloat \<Rightarrow> pyfloat \<Rightarrow> pyfloat" where
  "py_min a b = (if fless b a then b else a)"

text \<open>\<open>range(n)\<close>: the integers from 0 to \<open>n - 1\<close>, none when \<open>n \<le> 0\<close>.\<close>

definition py_range :: "int \<Rightarrow> int list" where
  "py_range n = [0..n - 1]"

text \<open>\<open>xs[i]\<close> on a Python list: a negative index counts from the end.\<close>

datatype error =
    MemoryError string
  | AttributeError string
  | Exception string
  | IndexError string
  | OverflowError string

definition py_index :: "'a list \<Rightarrow> int \<Rightarrow> error + 'a" where
  "py_index xs i =
     (if 0 \<le> i \<and> i < int (length xs) then Inr (xs ! nat i)
      else if i < 0 \<and> - int (length xs) \<le> i then Inr (xs ! nat (int (length xs) + i))
      else Inl (IndexError ''list index out of range''))"

text \<open>A C pointer is an address; 0 is the null pointer (\<open>not p\<close> in the source).\<close>

type_synonym ptr = nat

record feature =
  ftype :: string
  has_missing :: bool
  n_bins :: int

record feature_combination =
  attributes :: "int list"

record EbmCoreFeature =
  featureType :: int
  hasMissing :: int
  countBins :: int

record EbmCoreFeatureCombination =
  countFeaturesInCombination :: int

definition FeatureTypeOrdinal :: int where
  "FeatureTypeOrdinal = 0"

definition FeatureTypeNominal :: int where
  "FeatureTypeNominal = 1"

subsection \<open>The native library and its call log\<close>

datatype call =
    Call_InitializeTrainingClassification ptr
  | Call_InitializeTrainingRegression ptr
  | Call_GenerateModelFeatureCombinationUpdate ptr int ptr
  | Call_ApplyModelFeatureCombinationUpdate ptr int ptr int
  | Call_GetBestModelFeatureCombination ptr int ptr
  | Call_GetCurrentModelFeatureCombination ptr int ptr
  | Call_FreeTraining ptr
  | Call_InitializeInteractionClassification ptr
  | Call_InitializeInteractionRegression ptr
  | Call_GetInteractionScore ptr "int list" int pyfloat
  | Call_FreeInteraction ptr

text \<open>
  In these entries the last argument of \<open>Call_GenerateModelFeatureCombinationUpdate\<close>,
  \<open>Call_GetBestModelFeatureCombination\<close> and \<open>Call_GetCurrentModelFeatureCombination\<close>
  is the pointer the library returned, the last one of
  \<open>Call_ApplyModelFeatureCombinationUpdate\<close> is its status, and the last two of
  \<open>Call_GetInteractionScore\<close> are its status and the score it left.
\<close>

text \<open>
  \<open>'e\<close> is the state of the library, \<open>'d\<close> the numeric arrays of a data set as they
  are handed over (design matrices, targets and prior scores; this module only passes
  them on). A by-reference output argument is a value passed in and a value handed back.
\<close>

record ('e, 'd) native_lib =
  InitializeTrainingClassification ::
    "'e \<Rightarrow> int \<Rightarrow> EbmCoreFeature list \<Rightarrow> EbmCoreFeatureCombination list \<Rightarrow> int list
        \<Rightarrow> 'd \<Rightarrow> int \<Rightarrow> int \<Rightarrow> 'e \<times> ptr"
  InitializeTrainingRegression ::
    "'e \<Rightarrow> EbmCoreFeature list \<Rightarrow> EbmCoreFeatureCombination list \<Rightarrow> int list
        \<Rightarrow> 'd \<Rightarrow> int \<Rightarrow> int \<Rightarrow> 'e \<times> ptr"
  GenerateModelFeatureCombinationUpdate ::
    "'e \<Rightarrow> ptr \<Rightarrow> int \<Rightarrow> pyfloat \<Rightarrow> int \<Rightarrow> int \<Rightarrow> pyfloat \<Rightarrow> 'e \<times> ptr \<times> pyfloat"
  ApplyModelFeatureCombinationUpdate ::
    "'e \<Rightarrow> ptr \<Rightarrow> int \<Rightarrow> ptr \<Rightarrow> pyfloat \<Rightarrow> 'e \<times> int \<times> pyfloat"
  GetBestModelFeatureCombination :: "'e \<Rightarrow> ptr \<Rightarrow> int \<Rightarrow> 'e \<times> ptr"
  GetCurrentModelFeatureCombination :: "'e \<Rightarrow> ptr \<Rightarrow> int \<Rightarrow> 'e \<times> ptr"
  FreeTraining :: "'e \<Rightarrow> ptr \<Rightarrow> 'e"
  InitializeInteractionClassification ::
    "'e \<Rightarrow> int \<Rightarrow> EbmCoreFeature list \<Rightarrow> 'd \<Rightarrow> 'e \<times> ptr"
  InitializeInteractionRegression ::
    "'e \<Rightarrow> EbmCoreFeature list \<Rightarrow> 'd \<Rightarrow> 'e \<times> ptr"
  GetInteractionScore :: "'e \<Rightarrow> ptr \<Rightarrow> int list \<Rightarrow> pyfloat \<Rightarrow> 'e \<times> int \<times> pyfloat"
  FreeInteraction :: "'e \<Rightarrow> ptr \<Rightarrow> 'e"

record 'e world =
  estate :: 'e
  calls :: "call list"

definition logged :: "'e world \<Rightarrow> 'e \<Rightarrow> call \<Rightarrow> 'e world" where
  "logged w e c = \<lparr>estate = e, calls = calls w @ [c]\<rparr>"

section \<open>Native: conversion of the feature tables\<close>

text \<open>
  \<open>Native.convert_features_to_c\<close>: the loop stops at the first feature whose type is
  neither \<open>categorical\<close> nor \<open>continuous\<close>. A count of bins that does not fit the
  64-bit field is stored without a check by ctypes; the field is kept as the integer here,
  since nothing in this module reads it back.
\<close>

definition unrecognized_feature_type :: string where
  "unrecognized_feature_type =
     ''Unrecognized feature['' @ [CHR 0x22] @ ''type'' @ [CHR 0x22] @ '']''"

fun convert_features_to_c :: "feature list \<Rightarrow> error + EbmCoreFeature list" where
  "convert_features_to_c [] = Inr []"
| "convert_features_to_c (f # fs) =
     (if ftype f = ''categorical'' \<or> ftype f = ''continuous'' then
        (case convert_features_to_c fs of
           Inl e \<Rightarrow> Inl e
         | Inr ar \<Rightarrow>
             Inr (\<lparr>featureType = (if ftype f = ''categorical'' then FeatureTypeNominal
                                  else FeatureTypeOrdinal),
                   hasMissing = 1 * (if has_missing f then 1 else 0),
                   countBins = n_bins f\<rparr> # ar))
      else Inl (AttributeError unrecognized_feature_type))"

text \<open>
  \<open>np.array(..., dtype=ct.c_longlong)\<close> and \<open>np.array(..., dtype=np.int64)\<close> raise
  \<open>OverflowError\<close> for a Python integer that is not a signed 64-bit one.
\<close>

definition fits_c_longlong :: "int \<Rightarrow> bool" where
  "fits_c_longlong i = (- (2 ^ 63) \<le> i \<and> i < 2 ^ 63)"

text \<open>
  \<open>Native.convert_feature_combinations_to_c\<close>: the sizes are stored and the indices
  gathered in a Python list first; the conversion of that list to an array of
  \<open>c_longlong\<close> comes last.
\<close>

definition convert_feature_combinations_to_c ::
  "feature_combination list \<Rightarrow> error + EbmCoreFeatureCombination list \<times> int list" where
  "convert_feature_combinations_to_c feature_combinations =
     (let feature_combinations_ar =
            map (\<lambda>fc. \<lparr>countFeaturesInCombination = int (length (attributes fc))\<rparr>)
                feature_combinations;
          feature_combination_indexes = concat (map attributes feature_combinations)
      in if list_all fits_c_longlong feature_combination_indexes
         then Inr (feature_combinations_ar, feature_combination_indexes)
         else Inl (OverflowError ''Python int too large to convert to C long''))"

section \<open>NativeEBMTraining\<close>

record training =
  self_model_pointer :: ptr
  self_model_type :: string
  self_n_classes :: int
  self_features :: "feature list"
  self_feature_combinations :: "feature_combination list"

text \<open>
  \<open>NativeEBMTraining.__init__\<close>. The features are converted first, then the feature
  combinations, then the library is asked for a handle according to \<open>model_type\<close>. The
  argument \<open>data\<close> stands for the
  six arrays as they are handed to the library, that is, with prior scores that were given
  as \<open>None\<close> already replaced by zeros (\<open>EBMUtils.get_count_scores_c\<close>, which sizes those
  zeros, is not part of this module).
\<close>

definition NativeEBMTraining_init ::
  "('e, 'd) native_lib \<Rightarrow> string \<Rightarrow> int \<Rightarrow> feature list \<Rightarrow> feature_combination list
     \<Rightarrow> 'd \<Rightarrow> int \<Rightarrow> int \<Rightarrow> 'e world \<Rightarrow> 'e world \<times> (error + training)" where
  "NativeEBMTraining_init lib model_type n_classes features feature_combinations
       data n_inner_bags random_state w =
     (case convert_features_to_c features of
        Inl e \<Rightarrow> (w, Inl e)
      | Inr feature_array \<Rightarrow>
          (case convert_feature_combinations_to_c feature_combinations of
             Inl e \<Rightarrow> (w, Inl e)
           | Inr (feature_combinations_array, feature_combination_indexes) \<Rightarrow>
               if model_type = ''classification'' then
                 (case InitializeTrainingClassification lib (estate w) n_classes feature_array
                         feature_combinations_array feature_combination_indexes
                         data n_inner_bags random_state of
                    (e', p) \<Rightarrow>
                      let w' = logged w e' (Call_InitializeTrainingClassification p) in
                      if p = 0 then
                        (w', Inl (MemoryError
                                    ''Out of memory in InitializeTrainingClassification''))
                      else
                        (w', Inr \<lparr>self_model_pointer = p, self_model_type = model_type,
                                  self_n_classes = n_classes, self_features = features,
                                  self_feature_combinations = feature_combinations\<rparr>))
               else if model_type = ''regression'' then
                 (case InitializeTrainingRegression lib (estate w) feature_array
                         feature_combinations_array feature_combination_indexes
                         data n_inner_bags random_state of
                    (e', p) \<Rightarrow>
                      let w' = logged w e' (Call_InitializeTrainingRegression p) in
                      if p = 0 then
                        (w', Inl (MemoryError
                                    ''Out of memory in InitializeTrainingRegression''))
                      else
                        (w', Inr \<lparr>self_model_pointer = p, self_model_type = model_type,
                                  self_n_classes = n_classes, self_features = features,
                                  self_feature_combinations = feature_combinations\<rparr>))
               else (w, Inl (AttributeError ''Unrecognized model_type''))))"

text \<open>\<open>NativeEBMTraining.close\<close>.\<close>

definition close :: "('e, 'd) native_lib \<Rightarrow> training \<Rightarrow> 'e world \<Rightarrow> 'e world" where
  "close lib self w =
     logged w (FreeTraining lib (estate w) (self_model_pointer self))
            (Call_FreeTraining (self_model_pointer self))"

text \<open>
  The body of \<open>for i in range(training_step_episodes)\<close> in \<open>training_step\<close>, with the
  number of iterations still to run; \<open>gain\<close> and \<open>metric_output\<close> are the two
  by-reference doubles.
\<close>

fun training_episodes ::
  "('e, 'd) native_lib \<Rightarrow> training \<Rightarrow> int \<Rightarrow> pyfloat \<Rightarrow> int \<Rightarrow> int \<Rightarrow> nat
     \<Rightarrow> pyfloat \<Rightarrow> pyfloat \<Rightarrow> 'e world \<Rightarrow> 'e world \<times> (error + pyfloat)" where
  "training_episodes lib self feature_combination_index learning_rate max_tree_splits
       min_cases_for_split 0 gain metric_output w = (w, Inr metric_output)"
| "training_episodes lib self feature_combination_index learning_rate max_tree_splits
       min_cases_for_split (Suc k) gain metric_output w =
     (case GenerateModelFeatureCombinationUpdate lib (estate w) (self_model_pointer self)
             feature_combination_index learning_rate max_tree_splits min_cases_for_split gain of
        (e1, model_update_tensor_pointer, gain') \<Rightarrow>
          let w1 = logged w e1 (Call_GenerateModelFeatureCombinationUpdate
                                  (self_model_pointer self) feature_combination_index
                                  model_update_tensor_pointer) in
          if model_update_tensor_pointer = 0 then
            (w1, Inl (MemoryError ''Out of memory in GenerateModelFeatureCombinationUpdate''))
          else
            (case ApplyModelFeatureCombinationUpdate lib (estate w1) (self_model_pointer self)
                    feature_combination_index model_update_tensor_pointer metric_output of
               (e2, return_code, metric_output') \<Rightarrow>
                 let w2 = logged w1 e2 (Call_ApplyModelFeatureCombinationUpdate
                                          (self_model_pointer self) feature_combination_index
                                          model_update_tensor_pointer return_code) in
                 if return_code \<noteq> 0 then
                   (w2, Inl (Exception ''Out of memory in ApplyModelFeatureCombinationUpdate''))
                 else
                   training_episodes lib self feature_combination_index learning_rate
                     max_tree_splits min_cases_for_split k gain' metric_output' w2))"

text \<open>\<open>NativeEBMTraining.training_step\<close>.\<close>

definition training_step ::
  "('e, 'd) native_lib \<Rightarrow> training \<Rightarrow> int \<Rightarrow> pyfloat \<Rightarrow> int \<Rightarrow> int \<Rightarrow> int
     \<Rightarrow> 'e world \<Rightarrow> 'e world \<times> (error + pyfloat)" where
  "training_step lib self feature_combination_index learning_rate max_tree_splits
       min_cases_for_split training_step_episodes w =
     (if self_model_type self \<noteq> ''classification'' \<or> 2 \<le> self_n_classes self then
        training_episodes lib self feature_combination_index learning_rate max_tree_splits
          min_cases_for_split (nat training_step_episodes) (Fin 0) (Fin 0) w
      else (w, Inr (Fin 0)))"

text \<open>
  \<open>NativeEBMTraining._get_feature_combination_shape\<close>. The loop over the attributes
  raises at the first index that is out of range.
\<close>

fun collect_bins :: "feature list \<Rightarrow> int list \<Rightarrow> error + int list" where
  "collect_bins features [] = Inr []"
| "collect_bins features (feature_idx # rest) =
     (case py_index features feature_idx of
        Inl e \<Rightarrow> Inl e
      | Inr f \<Rightarrow>
          (case collect_bins features rest of
             Inl e \<Rightarrow> Inl e
           | Inr dimensions \<Rightarrow> Inr (n_bins f # dimensions)))"

definition get_feature_combination_shape :: "training \<Rightarrow> int \<Rightarrow> error + int list" where
  "get_feature_combination_shape self feature_combination_index =
     (case py_index (self_feature_combinations self) feature_combination_index of
        Inl e \<Rightarrow> Inl e
      | Inr feature_combination \<Rightarrow>
          (case collect_bins (self_features self) (attributes feature_combination) of
             Inl e \<Rightarrow> Inl e
           | Inr dimensions \<Rightarrow>
               Inr (rev dimensions @
                    (if self_model_type self = ''classification'' \<and> self_n_classes self > 2
                     then [self_n_classes self] else []))))"

text \<open>
  \<open>Native.make_ndarray\<close> copies \<open>shape\<close>-many doubles out of library memory. The copy
  is represented by where it was read from and the shape it was given.
\<close>

datatype ndarray = NDArray ptr "int list"

text \<open>
  \<open>_get_best_model_feature_combination\<close> and \<open>_get_current_model_feature_combination\<close>;
  \<open>None\<close> is the source's \<open>None\<close>.
\<close>

definition get_best_model_feature_combination ::
  "('e, 'd) native_lib \<Rightarrow> training \<Rightarrow> int \<Rightarrow> 'e world
     \<Rightarrow> 'e world \<times> (error + ndarray option)" where
  "get_best_model_feature_combination lib self feature_combination_index w =
     (if self_model_type self = ''classification'' \<and> self_n_classes self \<le> 1 then
        (w, Inr None)
      else
        (case GetBestModelFeatureCombination lib (estate w) (self_model_pointer self)
                feature_combination_index of
           (e', array_p) \<Rightarrow>
             let w' = logged w e' (Call_GetBestModelFeatureCombination
                                     (self_model_pointer self) feature_combination_index
                                     array_p) in
             if array_p = 0 then
               (w', Inl (MemoryError ''Out of memory in GetBestModelFeatureCombination''))
             else
               (case get_feature_combination_shape self feature_combination_index of
                  Inl e \<Rightarrow> (w', Inl e)
                | Inr shape \<Rightarrow> (w', Inr (Some (NDArray array_p shape))))))"

definition get_current_model_feature_combination ::
  "('e, 'd) native_lib \<Rightarrow> training \<Rightarrow> int \<Rightarrow> 'e world
     \<Rightarrow> 'e world \<times> (error + ndarray option)" where
  "get_current_model_feature_combination lib self feature_combination_index w =
     (if self_model_type self = ''classification'' \<and> self_n_classes self \<le> 1 then
        (w, Inr None)
      else
        (case GetCurrentModelFeatureCombination lib (estate w) (self_model_pointer self)
                feature_combination_index of
           (e', array_p) \<Rightarrow>
             let w' = logged w e' (Call_GetCurrentModelFeatureCombination
                                     (self_model_pointer self) feature_combination_index
                                     array_p) in
             if array_p = 0 then
               (w', Inl (MemoryError ''Out of memory in GetCurrentModelFeatureCombination''))
             else
               (case get_feature_combination_shape self feature_combination_index of
                  Inl e \<Rightarrow> (w', Inl e)
                | Inr shape \<Rightarrow> (w', Inr (Some (NDArray array_p shape))))))"

text \<open>
  \<open>get_best_model\<close> and \<open>get_current_model\<close>: one accessor call per index, the results
  appended in order.
\<close>

fun collect_model ::
  "(int \<Rightarrow> 'e world \<Rightarrow> 'e world \<times> (error + ndarray option)) \<Rightarrow> int list \<Rightarrow> 'e world
     \<Rightarrow> 'e world \<times> (error + ndarray option list)" where
  "collect_model get [] w = (w, Inr [])"
| "collect_model get (index # rest) w =
     (case get index w of
        (w1, Inl e) \<Rightarrow> (w1, Inl e)
      | (w1, Inr model_feature_combination) \<Rightarrow>
          (case collect_model get rest w1 of
             (w2, Inl e) \<Rightarrow> (w2, Inl e)
           | (w2, Inr model) \<Rightarrow> (w2, Inr (model_feature_combination # model))))"

definition get_best_model ::
  "('e, 'd) native_lib \<Rightarrow> training \<Rightarrow> 'e world
     \<Rightarrow> 'e world \<times> (error + ndarray option list)" where
  "get_best_model lib self w =
     collect_model (get_best_model_feature_combination lib self)
       (py_range (int (length (self_feature_combinations self)))) w"

definition get_current_model ::
  "('e, 'd) native_lib \<Rightarrow> training \<Rightarrow> 'e world
     \<Rightarrow> 'e world \<times> (error + ndarray option list)" where
  "get_current_model lib self w =
     collect_model (get_current_model_feature_combination lib self)
       (py_range (int (length (self_feature_combinations self)))) w"

section \<open>NativeEBMInteraction\<close>

record interaction =
  self_interaction_pointer :: ptr

text \<open>\<open>NativeEBMInteraction.__init__\<close>.\<close>

definition NativeEBMInteraction_init ::
  "('e, 'd) native_lib \<Rightarrow> string \<Rightarrow> int \<Rightarrow> feature list \<Rightarrow> 'd \<Rightarrow> 'e world
     \<Rightarrow> 'e world \<times> (error + interaction)" where
  "NativeEBMInteraction_init lib model_type n_classes features data w =
     (case convert_features_to_c features of
        Inl e \<Rightarrow> (w, Inl e)
      | Inr feature_array \<Rightarrow>
          if model_type = ''classification'' then
            (case InitializeInteractionClassification lib (estate w) n_classes feature_array
                    data of
               (e', p) \<Rightarrow>
                 let w' = logged w e' (Call_InitializeInteractionClassification p) in
                 if p = 0 then
                   (w', Inl (MemoryError
                               ''Out of memory in InitializeInteractionClassification''))
                 else (w', Inr \<lparr>self_interaction_pointer = p\<rparr>))
          else if model_type = ''regression'' then
            (case InitializeInteractionRegression lib (estate w) feature_array data of
               (e', p) \<Rightarrow>
                 let w' = logged w e' (Call_InitializeInteractionRegression p) in
                 if p = 0 then
                   (w', Inl (MemoryError
                               ''Out of memory in InitializeInteractionRegression''))
                 else (w', Inr \<lparr>self_interaction_pointer = p\<rparr>))
          else (w, Inl (AttributeError ''Unrecognized model_type'')))"

text \<open>\<open>NativeEBMInteraction.close\<close>.\<close>

definition close_interaction ::
  "('e, 'd) native_lib \<Rightarrow> interaction \<Rightarrow> 'e world \<Rightarrow> 'e world" where
  "close_interaction lib self w =
     logged w (FreeInteraction lib (estate w) (self_interaction_pointer self))
            (Call_FreeInteraction (self_interaction_pointer self))"

text \<open>
  \<open>NativeEBMInteraction.get_interaction_score\<close>. The tuple is converted to an array
  of \<open>int64\<close> while the arguments of the call are evaluated, before the library is
  called.
\<close>

definition get_interaction_score ::
  "('e, 'd) native_lib \<Rightarrow> interaction \<Rightarrow> int list \<Rightarrow> 'e world
     \<Rightarrow> 'e world \<times> (error + pyfloat)" where
  "get_interaction_score lib self feature_index_tuple w =
     (if \<not> list_all fits_c_longlong feature_index_tuple then
        (w, Inl (OverflowError ''Python int too large to convert to C long''))
      else
        (case GetInteractionScore lib (estate w) (self_interaction_pointer self)
                feature_index_tuple (Fin 0) of
           (e', return_code, score) \<Rightarrow>
             let w' = logged w e' (Call_GetInteractionScore (self_interaction_pointer self)
                                     feature_index_tuple return_code score) in
             if return_code \<noteq> 0 then
               (w', Inl (Exception ''Out of memory in GetInteractionScore''))
             else (w', Inr score)))"

section \<open>NativeHelper.cyclic_gradient_boost\<close>

text \<open>
  The variables of the boosting loop. The last two fields are not variables of the
  source: \<open>left_by_break\<close> tells whether the loop was left through \<open>break\<close>, and
  \<open>round_log\<close> keeps, for every round that ran to its end, the values of
  \<open>min_metric\<close> and \<open>no_change_run_length\<close> at the end of that round.
\<close>

record loop_state =
  min_metric :: pyfloat
  episode_index :: int
  no_change_run_length :: int
  bp_metric :: pyfloat
  left_by_break :: bool
  round_log :: "(pyfloat \<times> int) list"

text \<open>
  The inner loop \<open>for feature_combination_index in range(len(feature_combinations))\<close>:
  one training step per combination, folded into the running minimum \<open>m\<close> (the
  variable \<open>min_metric\<close>).
\<close>

fun boost_combinations ::
  "('e, 'd) native_lib \<Rightarrow> training \<Rightarrow> pyfloat \<Rightarrow> int \<Rightarrow> int \<Rightarrow> int \<Rightarrow> int list
     \<Rightarrow> pyfloat \<Rightarrow> 'e world \<Rightarrow> 'e world \<times> (error + pyfloat)" where
  "boost_combinations lib native_ebm_training learning_rate max_tree_splits
       min_cases_for_splits training_step_episodes [] m w = (w, Inr m)"
| "boost_combinations lib native_ebm_training learning_rate max_tree_splits
       min_cases_for_splits training_step_episodes (feature_combination_index # rest)
       m w =
     (case training_step lib native_ebm_training feature_combination_index learning_rate
             max_tree_splits min_cases_for_splits training_step_episodes w of
        (w1, Inl e) \<Rightarrow> (w1, Inl e)
      | (w1, Inr curr_metric) \<Rightarrow>
          boost_combinations lib native_ebm_training learning_rate max_tree_splits
            min_cases_for_splits training_step_episodes rest
            (py_min curr_metric m) w1)"

text \<open>
  The early-stopping bookkeeping at the end of a round (the two \<open>if\<close> statements after
  the inner loop), for the round \<open>episode_index\<close> whose inner loop left the running
  minimum \<open>m\<close>.
\<close>

definition early_stopping_update :: "pyfloat \<Rightarrow> pyfloat \<Rightarrow> int \<Rightarrow> loop_state \<Rightarrow> loop_state" where
  "early_stopping_update early_stopping_tolerance m r st =
     (let bp = (if no_change_run_length st = 0 then m else bp_metric st);
          nc = (if fless (fadd m early_stopping_tolerance) bp then 0
                else no_change_run_length st + 1)
      in \<lparr>min_metric = m, episode_index = r, no_change_run_length = nc, bp_metric = bp,
          left_by_break = left_by_break st, round_log = round_log st @ [(m, nc)]\<rparr>)"

text \<open>The outer loop \<open>for episode_index in range(data_n_episodes)\<close>, over its indices.\<close>

fun boost_rounds ::
  "('e, 'd) native_lib \<Rightarrow> training \<Rightarrow> pyfloat \<Rightarrow> int \<Rightarrow> int \<Rightarrow> int \<Rightarrow> pyfloat \<Rightarrow> int
     \<Rightarrow> int list \<Rightarrow> loop_state \<Rightarrow> 'e world \<Rightarrow> 'e world \<times> (error + loop_state)" where
  "boost_rounds lib native_ebm_training learning_rate max_tree_splits min_cases_for_splits
       training_step_episodes early_stopping_tolerance early_stopping_run_length
       [] st w = (w, Inr st)"
| "boost_rounds lib native_ebm_training learning_rate max_tree_splits min_cases_for_splits
       training_step_episodes early_stopping_tolerance early_stopping_run_length
       (r # rest) st w =
     (case boost_combinations lib native_ebm_training learning_rate max_tree_splits
             min_cases_for_splits training_step_episodes
             (py_range (int (length (self_feature_combinations native_ebm_training))))
             (min_metric st) w of
        (w1, Inl e) \<Rightarrow> (w1, Inl e)
      | (w1, Inr m) \<Rightarrow>
          let st1 = early_stopping_update early_stopping_tolerance m r st in
          if early_stopping_run_length \<ge> 0
             \<and> no_change_run_length st1 \<ge> early_stopping_run_length
          then (w1, Inr (st1\<lparr>left_by_break := True\<rparr>))
          else boost_rounds lib native_ebm_training learning_rate max_tree_splits
                 min_cases_for_splits training_step_episodes early_stopping_tolerance
                 early_stopping_run_length rest st1 w1)"

text \<open>The loop started from the initial values of its variables.\<close>

definition initial_loop_state :: loop_state where
  "initial_loop_state =
     \<lparr>min_metric = PInf, episode_index = 0, no_change_run_length = 0, bp_metric = PInf,
      left_by_break = False, round_log = []\<rparr>"

definition boosting_loop ::
  "('e, 'd) native_lib \<Rightarrow> training \<Rightarrow> pyfloat \<Rightarrow> int \<Rightarrow> int \<Rightarrow> int \<Rightarrow> int \<Rightarrow> pyfloat \<Rightarrow> int
     \<Rightarrow> 'e world \<Rightarrow> 'e world \<times> (error + loop_state)" where
  "boosting_loop lib native_ebm_training learning_rate max_tree_splits min_cases_for_splits
       training_step_episodes data_n_episodes early_stopping_tolerance
       early_stopping_run_length w =
     boost_rounds lib native_ebm_training learning_rate max_tree_splits min_cases_for_splits
       training_step_episodes early_stopping_tolerance early_stopping_run_length
       (py_range data_n_episodes) initial_loop_state w"

text \<open>
  \<open>cyclic_gradient_boost\<close>. The session is constructed before the \<open>with closing(...)\<close>
  block is entered, so a failing constructor is not followed by \<open>close\<close>; every way
  out of the block is.
\<close>

definition cyclic_gradient_boost ::
  "('e, 'd) native_lib \<Rightarrow> string \<Rightarrow> int \<Rightarrow> feature list \<Rightarrow> feature_combination list
     \<Rightarrow> 'd \<Rightarrow> int \<Rightarrow> int \<Rightarrow> pyfloat \<Rightarrow> int \<Rightarrow> int \<Rightarrow> int \<Rightarrow> int \<Rightarrow> pyfloat \<Rightarrow> int
     \<Rightarrow> 'e world \<Rightarrow> 'e world \<times> (error + ndarray option list \<times> pyfloat \<times> int)" where
  "cyclic_gradient_boost lib model_type n_classes features feature_combinations data
       n_inner_bags random_state learning_rate max_tree_splits min_cases_for_splits
       training_step_episodes data_n_episodes early_stopping_tolerance
       early_stopping_run_length w =
     (case NativeEBMTraining_init lib model_type n_classes features feature_combinations
             data n_inner_bags random_state w of
        (w1, Inl e) \<Rightarrow> (w1, Inl e)
      | (w1, Inr native_ebm_training) \<Rightarrow>
          (case boosting_loop lib native_ebm_training learning_rate max_tree_splits
                  min_cases_for_splits training_step_episodes data_n_episodes
                  early_stopping_tolerance early_stopping_run_length w1 of
             (w2, Inl e) \<Rightarrow> (close lib native_ebm_training w2, Inl e)
           | (w2, Inr st) \<Rightarrow>
               (case get_best_model lib native_ebm_training w2 of
                  (w3, Inl e) \<Rightarrow> (close lib native_ebm_training w3, Inl e)
                | (w3, Inr model_update) \<Rightarrow>
                    (close lib native_ebm_training w3,
                     Inr (model_update, min_metric st, episode_index st)))))"

section \<open>NativeHelper.get_interactions\<close>

text \<open>The loop that scores every candidate in turn and appends the pair.\<close>

fun score_candidates ::
  "('e, 'd) native_lib \<Rightarrow> interaction \<Rightarrow> int list list \<Rightarrow> 'e world
     \<Rightarrow> 'e world \<times> (error + (int list \<times> pyfloat) list)" where
  "score_candidates lib native_ebm_interactions [] w = (w, Inr [])"
| "score_candidates lib native_ebm_interactions (feature_combination # rest) w =
     (case get_interaction_score lib native_ebm_interactions feature_combination w of
        (w1, Inl e) \<Rightarrow> (w1, Inl e)
      | (w1, Inr score) \<Rightarrow>
          (case score_candidates lib native_ebm_interactions rest w1 of
             (w2, Inl e) \<Rightarrow> (w2, Inl e)
           | (w2, Inr interaction_scores) \<Rightarrow>
               (w2, Inr ((feature_combination, score) # interaction_scores))))"

text \<open>
  \<open>sorted(interaction_scores, key=lambda x: x[1], reverse=True)\<close>. Python's sort is
  stable, also with \<open>reverse=True\<close>. On keys without NaN the comparison is a total
  preorder and the result of a stable sort is determined by its input, so the insertion
  sort below returns what \<open>sorted\<close> returns; what \<open>sorted\<close> does with NaN keys depends on
  its algorithm and is not modelled. An element is put in front of the first one whose
  key is not greater than its own.
\<close>

fun insort_reverse :: "'a \<times> pyfloat \<Rightarrow> ('a \<times> pyfloat) list \<Rightarrow> ('a \<times> pyfloat) list" where
  "insort_reverse x [] = [x]"
| "insort_reverse x (y # ys) =
     (if fless (snd x) (snd y) then y # insort_reverse x ys else x # y # ys)"

fun sorted_reverse :: "('a \<times> pyfloat) list \<Rightarrow> ('a \<times> pyfloat) list" where
  "sorted_reverse [] = []"
| "sorted_reverse (x # xs) = insort_reverse x (sorted_reverse xs)"

text \<open>The slice \<open>xs[0:n]\<close>; a negative \<open>n\<close> counts from the end.\<close>

definition py_slice_to :: "'a list \<Rightarrow> int \<Rightarrow> 'a list" where
  "py_slice_to xs n = (if n < 0 then take (nat (int (length xs) + n)) xs else take (nat n) xs)"

definition get_interactions ::
  "('e, 'd) native_lib \<Rightarrow> int \<Rightarrow> int list list \<Rightarrow> string \<Rightarrow> int \<Rightarrow> feature list \<Rightarrow> 'd
     \<Rightarrow> 'e world \<Rightarrow> 'e world \<times> (error + int list list \<times> pyfloat list)" where
  "get_interactions lib n_interactions iter_feature_combinations model_type n_classes
       features data w =
     (case NativeEBMInteraction_init lib model_type n_classes features data w of
        (w1, Inl e) \<Rightarrow> (w1, Inl e)
      | (w1, Inr native_ebm_interactions) \<Rightarrow>
          (case score_candidates lib native_ebm_interactions iter_feature_combinations w1 of
             (w2, Inl e) \<Rightarrow> (close_interaction lib native_ebm_interactions w2, Inl e)
           | (w2, Inr interaction_scores) \<Rightarrow>
               let ranked_scores = sorted_reverse interaction_scores;
                   n_interactions' = min (int (length ranked_scores)) n_interactions;
                   final_ranked_scores = py_slice_to ranked_scores n_interactions'
               in (close_interaction lib native_ebm_interactions w2,
                   Inr (map fst final_ranked_scores, map snd final_ranked_scores))))"

section \<open>A scripted library for the scenarios\<close>

text \<open>
  A library whose state is the list of doubles it will still write: every
  \<open>ApplyModelFeatureCombinationUpdate\<close> and every \<open>GetInteractionScore\<close> writes the next
  one and reports success, and reports failure (status 1, nothing written) once the list
  is used up. Initialisation answers with the handle \<open>h\<close>; the tensor pointers are not
  null.
\<close>

definition script_lib :: "ptr \<Rightarrow> (pyfloat list, unit) native_lib" where
  "script_lib h =
     \<lparr>InitializeTrainingClassification = (\<lambda>e _ _ _ _ _ _ _. (e, h)),
      InitializeTrainingRegression = (\<lambda>e _ _ _ _ _ _. (e, h)),
      GenerateModelFeatureCombinationUpdate = (\<lambda>e _ _ _ _ _ gain. (e, 1, gain)),
      ApplyModelFeatureCombinationUpdate =
        (\<lambda>e _ _ _ metric. case e of [] \<Rightarrow> (e, 1, metric) | x # xs \<Rightarrow> (xs, 0, x)),
      GetBestModelFeatureCombination = (\<lambda>e _ _. (e, 1)),
      GetCurrentModelFeatureCombination = (\<lambda>e _ _. (e, 1)),
      FreeTraining = (\<lambda>e _. e),
      InitializeInteractionClassification = (\<lambda>e _ _ _. (e, h)),
      InitializeInteractionRegression = (\<lambda>e _ _. (e, h)),
      GetInteractionScore =
        (\<lambda>e _ _ score. case e of [] \<Rightarrow> (e, 1, score) | x # xs \<Rightarrow> (xs, 0, x)),
      FreeInteraction = (\<lambda>e _. e)\<rparr>"

definition script_world :: "pyfloat list \<Rightarrow> pyfloat list world" where
  "script_world script = \<lparr>estate = script, calls = []\<rparr>"

section \<open>Notions used in the statements\<close>

text \<open>
  A training step is quiet when its loop body cannot run: no episodes are asked for, or
  the guard \<open>self._model_type != "classification" or 2 <= self._n_classes\<close> is false.
\<close>

definition quiet :: "training \<Rightarrow> int \<Rightarrow> bool" where
  "quiet self training_step_episodes =
     (training_step_episodes \<le> 0
      \<or> (self_model_type self = ''classification'' \<and> self_n_classes self < 2))"

text \<open>The second and third component of what \<open>cyclic_gradient_boost\<close> returns.\<close>

definition returned_min_metric ::
  "'w \<times> (error + ndarray option list \<times> pyfloat \<times> int) \<Rightarrow> pyfloat option" where
  "returned_min_metric res =
     (case snd res of Inl e \<Rightarrow> None | Inr (model_update, m, idx) \<Rightarrow> Some m)"

definition returned_episode_index ::
  "'w \<times> (error + ndarray option list \<times> pyfloat \<times> int) \<Rightarrow> int option" where
  "returned_episode_index res =
     (case snd res of Inl e \<Rightarrow> None | Inr (model_update, m, idx) \<Rightarrow> Some idx)"

text \<open>A continuous feature with the given number of bins, for the scenarios.\<close>

definition example_feature :: "int \<Rightarrow> feature" where
  "example_feature bins = \<lparr>ftype = ''continuous'', has_missing = False, n_bins = bins\<rparr>"

text \<open>Two sessions for the scenarios: one with two features, one with a single one.\<close>

definition example_training :: "string \<Rightarrow> int \<Rightarrow> training" where
  "example_training model_type n_classes =
     \<lparr>self_model_pointer = 7, self_model_type = model_type, self_n_classes = n_classes,
      self_features = [example_feature 3, example_feature 4],
      self_feature_combinations = [\<lparr>attributes = [0]\<rparr>, \<lparr>attributes = [1]\<rparr>]\<rparr>"

definition one_feature_training :: training where
  "one_feature_training =
     \<lparr>self_model_pointer = 7, self_model_type = ''regression'', self_n_classes = 0,
      self_features = [example_feature 3],
      self_feature_combinations = [\<lparr>attributes = [0]\<rparr>]\<rparr>"

text \<open>What the round log of a finished loop recorded, as two lists.\<close>

definition round_metrics :: "'w \<times> (error + loop_state) \<Rightarrow> pyfloat list" where
  "round_metrics res = (case snd res of Inl e \<Rightarrow> [] | Inr st \<Rightarrow> map fst (round_log st))"

definition stall_counters :: "'w \<times> (error + loop_state) \<Rightarrow> int list" where
  "stall_counters res = (case snd res of Inl e \<Rightarrow> [] | Inr st \<Rightarrow> map snd (round_log st))"

text \<open>
  The hypotheses on a sequence of per-round minima, in the loop's own terms: the double
  sum \<open>min_metric + early_stopping_tolerance\<close> of a round is below the minimum of the
  round before (\<open>improving\<close>); it is not below the minimum of the round itself
  (\<open>stalling_alone\<close>).
\<close>

definition improving :: "pyfloat \<Rightarrow> pyfloat list \<Rightarrow> bool" where
  "improving tol ms = (\<forall>i. Suc i < length ms \<longrightarrow> fless (fadd (ms ! Suc i) tol) (ms ! i))"

definition stalling_alone :: "pyfloat \<Rightarrow> pyfloat list \<Rightarrow> bool" where
  "stalling_alone tol ms = (\<forall>m \<in> set ms. \<not> fless (fadd m tol) m)"

text \<open>
  The stall counter alternates between 1 (after the rounds 0, 2, 4, ...) and 0; it never
  leaves 0.
\<close>

definition alternating :: "loop_state \<Rightarrow> bool" where
  "alternating st =
     ((\<forall>i < length (round_log st). snd (round_log st ! i) = (if even i then 1 else 0))
      \<and> no_change_run_length st = (if even (length (round_log st)) then 0 else 1))"

definition never_stalled :: "loop_state \<Rightarrow> bool" where
  "never_stalled st = (\<forall>p \<in> set (round_log st). snd p = 0)"

text \<open>The invariants of the loop behind the last two notions.\<close>

definition stall_inv :: "pyfloat \<Rightarrow> loop_state \<Rightarrow> bool" where
  "stall_inv tol st =
     (improving tol (map fst (round_log st)) \<and> stalling_alone tol (map fst (round_log st)) \<longrightarrow>
        alternating st
        \<and> (odd (length (round_log st)) \<longrightarrow> bp_metric st = fst (last (round_log st))))"

definition eager_inv :: "pyfloat \<Rightarrow> loop_state \<Rightarrow> bool" where
  "eager_inv tol st =
     ((never_stalled st \<longleftrightarrow> (\<forall>p \<in> set (round_log st). fless (fadd (fst p) tol) (fst p)))
      \<and> (never_stalled st \<longrightarrow> no_change_run_length st = 0))"

text \<open>
  The index a Python list accepts (from \<open>-len\<close> to \<open>len - 1\<close>) and the element it
  denotes.
\<close>

definition valid_index :: "'a list \<Rightarrow> int \<Rightarrow> bool" where
  "valid_index xs i = (- int (length xs) \<le> i \<and> i < int (length xs))"

definition feature_at :: "'a list \<Rightarrow> int \<Rightarrow> 'a" where
  "feature_at xs i = xs ! nat (if i < 0 then int (length xs) + i else i)"

text \<open>
  The feature types \<open>convert_features_to_c\<close> accepts, the model types the constructors
  accept, and the kinds of error they raise.
\<close>

definition valid_feature_type :: "feature \<Rightarrow> bool" where
  "valid_feature_type f = (ftype f = ''categorical'' \<or> ftype f = ''continuous'')"

definition known_model_type :: "string \<Rightarrow> bool" where
  "known_model_type model_type = (model_type = ''classification'' \<or> model_type = ''regression'')"

definition is_AttributeError :: "error + 'a \<Rightarrow> bool" where
  "is_AttributeError r = (case r of Inl (AttributeError msg) \<Rightarrow> True | _ \<Rightarrow> False)"

definition is_MemoryError :: "error + 'a \<Rightarrow> bool" where
  "is_MemoryError r = (case r of Inl (MemoryError msg) \<Rightarrow> True | _ \<Rightarrow> False)"

definition is_OverflowError :: "error + 'a \<Rightarrow> bool" where
  "is_OverflowError r = (case r of Inl (OverflowError msg) \<Rightarrow> True | _ \<Rightarrow> False)"

text \<open>The indices of all feature combinations fit the array they are copied to.\<close>

definition indexes_fit :: "feature_combination list \<Rightarrow> bool" where
  "indexes_fit feature_combinations =
     list_all fits_c_longlong (concat (map attributes feature_combinations))"

text \<open>Scores from first to last with no later score greater than an earlier one.\<close>

definition non_increasing :: "pyfloat list \<Rightarrow> bool" where
  "non_increasing scores = sorted_wrt (\<lambda>a b. \<not> fless a b) scores"

text \<open>
  The scores the library computes for a list of candidates: it is asked about each
  candidate in turn, about that candidate itself, each time from the state its last
  answer left. The result is these scores and the state after the last answer, or
  \<open>None\<close> when an answer comes with a status other than 0.
\<close>

fun engine_replies ::
  "('e, 'd) native_lib \<Rightarrow> ptr \<Rightarrow> int list list \<Rightarrow> 'e \<Rightarrow> (pyfloat list \<times> 'e) option" where
  "engine_replies lib h [] e = Some ([], e)"
| "engine_replies lib h (c # cs) e =
     (case GetInteractionScore lib e h c (Fin 0) of
        (e', return_code, score) \<Rightarrow>
          if return_code \<noteq> 0 then None
          else (case engine_replies lib h cs e' of
                  None \<Rightarrow> None
                | Some (scores, e'') \<Rightarrow> Some (score # scores, e'')))"

text \<open>The list of indices \<open>get_interactions\<close> returns.\<close>

definition returned_indices ::
  "'w \<times> (error + int list list \<times> pyfloat list) \<Rightarrow> int list list" where
  "returned_indices res = (case snd res of Inl e \<Rightarrow> [] | Inr (indices, scores) \<Rightarrow> indices)"

text \<open>The ranking scenario: five candidate pairs over four features, and their scores.\<close>

definition example_candidates :: "int list list" where
  "example_candidates = [[0, 1], [0, 2], [1, 2], [0, 3], [1, 3]]"

definition example_scores :: "pyfloat list" where
  "example_scores = [Fin 0.9, Fin 0.9, Fin 0.5, Fin 0.2, Fin 0.1]"

definition four_features :: "feature list" where
  "four_features = [example_feature 3, example_feature 4, example_feature 2, example_feature 5]"

text \<open>
  Statements about the call log. An entry releases a training handle. An entry records
  a call that failed: a null pointer from \<open>GenerateModelFeatureCombinationUpdate\<close> or
  \<open>GetBestModelFeatureCombination\<close>, a status other than 0 from
  \<open>ApplyModelFeatureCombinationUpdate\<close>; \<open>error_of_call\<close> is what the wrapper raises
  for it. What a result raised, if anything.
\<close>

definition is_release :: "call \<Rightarrow> bool" where
  "is_release c = (case c of Call_FreeTraining h \<Rightarrow> True | _ \<Rightarrow> False)"

definition failed_call :: "call \<Rightarrow> bool" where
  "failed_call c =
     (case c of
        Call_GenerateModelFeatureCombinationUpdate h i p \<Rightarrow> p = 0
      | Call_ApplyModelFeatureCombinationUpdate h i p return_code \<Rightarrow> return_code \<noteq> 0
      | Call_GetBestModelFeatureCombination h i p \<Rightarrow> p = 0
      | _ \<Rightarrow> False)"

definition error_of_call :: "call \<Rightarrow> error" where
  "error_of_call c =
     (case c of
        Call_GenerateModelFeatureCombinationUpdate h i p \<Rightarrow>
          MemoryError ''Out of memory in GenerateModelFeatureCombinationUpdate''
      | Call_ApplyModelFeatureCombinationUpdate h i p return_code \<Rightarrow>
          Exception ''Out of memory in ApplyModelFeatureCombinationUpdate''
      | Call_GetBestModelFeatureCombination h i p \<Rightarrow>
          MemoryError ''Out of memory in GetBestModelFeatureCombination''
      | _ \<Rightarrow> Exception [])"

definition raised :: "error + 'a \<Rightarrow> error option" where
  "raised r = (case r of Inl e \<Rightarrow> Some e | Inr x \<Rightarrow> None)"

text \<open>
  A stretch of the log and what was raised at its end: no handle is released in it, no
  call is made after one that failed, a failed last call raised its error, and a result
  without an error has no failed call behind it.
\<close>

definition trace_ok :: "call list \<Rightarrow> error option \<Rightarrow> bool" where
  "trace_ok mid eo =
     ((\<forall>c \<in> set mid. \<not> is_release c)
      \<and> (\<forall>c \<in> set (butlast mid). \<not> failed_call c)
      \<and> (mid \<noteq> [] \<and> failed_call (last mid) \<longrightarrow> eo = Some (error_of_call (last mid)))
      \<and> (eo = None \<longrightarrow> (\<forall>c \<in> set mid. \<not> failed_call c)))"

text \<open>The log of \<open>w'\<close> continues the log of \<open>w\<close> by such a stretch.\<close>

definition traced :: "'e world \<Rightarrow> 'e world \<Rightarrow> error option \<Rightarrow> bool" where
  "traced w w' eo = (\<exists>mid. calls w' = calls w @ mid \<and> trace_ok mid eo)"

section \<open>Basic facts\<close>


lemma estate_logged [simp]: "estate (logged w e c) = e"
  by (simp add: logged_def)

lemma calls_logged [simp]: "calls (logged w e c) = calls w @ [c]"
  by (simp add: logged_def)

lemma py_range_int: "py_range (int k) = map int [0..<k]"
proof (induction k)
  case 0
  show ?case by (simp add: py_range_def)
next
  case (Suc k)
  have "[0..int (Suc k) - 1] = [0..int k - 1] @ [int k]"
    using upto_rec2 [of 0 "int k"] by simp
  with Suc show ?case by (simp add: py_range_def)
qed

lemma py_range_Nil: "(py_range n = []) = (n \<le> 0)"
  by (auto simp: py_range_def)

lemma length_py_range: "length (py_range n) = nat n"
  by (simp add: py_range_def)

lemma py_range_length_Nil: "(py_range (int (length xs)) = []) = (xs = [])"
  by (simp add: py_range_Nil)

lemma training_step_quiet:
  "quiet self tse \<Longrightarrow> training_step lib self i lr mts mcs tse w = (w, Inr (Fin 0))"
  by (auto simp: quiet_def training_step_def)

lemma py_min_zero: "m = PInf \<or> m = Fin 0 \<Longrightarrow> py_min (Fin 0) m = Fin 0"
  by (auto simp: py_min_def)

lemma boost_combinations_quiet:
  assumes "quiet self tse" and "m = PInf \<or> m = Fin 0"
  shows "boost_combinations lib self lr mts mcs tse is m w
           = (w, Inr (if is = [] then m else Fin 0))"
  using assms(2)
proof (induction "is" arbitrary: m)
  case Nil
  show ?case by simp
next
  case (Cons i "is")
  have "py_min (Fin 0) m = Fin 0" using Cons.prems by (rule py_min_zero)
  then show ?case
    using Cons.IH [of "Fin 0"] by (simp add: training_step_quiet [OF assms(1)])
qed

lemma min_metric_update [simp]:
  "min_metric (early_stopping_update tol m r st) = m"
  by (simp add: early_stopping_update_def Let_def)

lemma boost_rounds_quiet:
  assumes "quiet self tse" and "min_metric st = PInf \<or> min_metric st = Fin 0"
  shows "\<exists>st'. boost_rounds lib self lr mts mcs tse tol rl rounds st w = (w, Inr st')
           \<and> min_metric st' = (if rounds = [] \<or> self_feature_combinations self = []
                                then min_metric st else Fin 0)"
  using assms(2)
proof (induction rounds arbitrary: st)
  case Nil
  show ?case by simp
next
  case (Cons r rounds)
  let ?m = "if self_feature_combinations self = [] then min_metric st else Fin 0"
  let ?st1 = "early_stopping_update tol ?m r st"
  have sweep: "boost_combinations lib self lr mts mcs tse
                 (py_range (int (length (self_feature_combinations self)))) (min_metric st) w
               = (w, Inr ?m)"
    by (simp add: boost_combinations_quiet [OF assms(1) Cons.prems] py_range_length_Nil)
  have m1: "min_metric ?st1 = PInf \<or> min_metric ?st1 = Fin 0"
    using Cons.prems by auto
  from Cons.IH [OF m1] obtain st' where
    st': "boost_rounds lib self lr mts mcs tse tol rl rounds ?st1 w = (w, Inr st')"
         "min_metric st' = (if rounds = [] \<or> self_feature_combinations self = []
                            then min_metric ?st1 else Fin 0)"
    by blast
  show ?case
  proof (cases "rl \<ge> 0 \<and> no_change_run_length ?st1 \<ge> rl")
    case True
    then show ?thesis using sweep by (simp add: Let_def)
  next
    case False
    then show ?thesis using sweep st' by (auto simp: Let_def)
  qed
qed

lemma boosting_loop_quiet:
  assumes "quiet self tse"
  shows "\<exists>st. boosting_loop lib self lr mts mcs tse dne tol rl w = (w, Inr st)
           \<and> min_metric st = (if 1 \<le> dne \<and> self_feature_combinations self \<noteq> []
                               then Fin 0 else PInf)"
proof -
  have "min_metric initial_loop_state = PInf \<or> min_metric initial_loop_state = Fin 0"
    by (simp add: initial_loop_state_def)
  from boost_rounds_quiet [OF assms this, of lib lr mts mcs tol rl "py_range dne" w]
  show ?thesis
    by (auto simp: boosting_loop_def py_range_Nil initial_loop_state_def)
qed

lemma collect_model_None:
  assumes "\<And>i w. get i w = (w, Inr None)"
  shows "collect_model get is w = (w, Inr (replicate (length is) None))"
  by (induction "is") (simp_all add: assms)

lemma get_best_model_degenerate:
  assumes "self_model_type self = ''classification''" and "self_n_classes self \<le> 1"
  shows "get_best_model lib self w
           = (w, Inr (replicate (length (self_feature_combinations self)) None))"
proof -
  have "\<And>i w. get_best_model_feature_combination lib self i w = (w, Inr None)"
    using assms by (simp add: get_best_model_feature_combination_def)
  then show ?thesis
    by (simp add: get_best_model_def collect_model_None length_py_range)
qed

lemma get_current_model_degenerate:
  assumes "self_model_type self = ''classification''" and "self_n_classes self \<le> 1"
  shows "get_current_model lib self w
           = (w, Inr (replicate (length (self_feature_combinations self)) None))"
proof -
  have "\<And>i w. get_current_model_feature_combination lib self i w = (w, Inr None)"
    using assms by (simp add: get_current_model_feature_combination_def)
  then show ?thesis
    by (simp add: get_current_model_def collect_model_None length_py_range)
qed

lemma NativeEBMTraining_init_Inr:
  assumes "NativeEBMTraining_init lib model_type n_classes features fcs data bags seed w
             = (w1, Inr self)"
  shows "self_model_pointer self \<noteq> 0 \<and> self_model_type self = model_type
         \<and> self_n_classes self = n_classes \<and> self_features self = features
         \<and> self_feature_combinations self = fcs
         \<and> (calls w1 = calls w @ [Call_InitializeTrainingClassification (self_model_pointer self)]
              \<and> model_type = ''classification''
            \<or> calls w1 = calls w @ [Call_InitializeTrainingRegression (self_model_pointer self)]
              \<and> model_type = ''regression'')"
  using assms
  by (auto simp: NativeEBMTraining_init_def Let_def
           split: sum.splits prod.splits if_splits)

section \<open>C1: a classification run with at most one class\<close>

text \<open>
  C1, as stated: in a classification run with \<open>n_classes \<le> 1\<close> the returned
  \<open>min_metric\<close> is still \<open>+infinity\<close>. It is not: a training step whose guard is false
  returns the initial value 0.0 of \<open>metric_output\<close>, and the loop takes the minimum of
  that and \<open>np.inf\<close>. With one class, one feature combination and four rounds the run
  does not return \<open>+infinity\<close>.
\<close>

theorem degenerate_run_min_metric_counterexample:
  "returned_min_metric
     (cyclic_gradient_boost (script_lib 7) ''classification'' 1 [example_feature 3]
        [\<lparr>attributes = [0]\<rparr>] () 0 0 (Fin 0.01) 2 2 1 4 (Fin 0.01) 2 (script_world []))
   \<noteq> Some PInf"
  by code_simp

text \<open>
  C1, amended: in a classification run with \<open>n_classes \<le> 1\<close> every training step
  returns 0.0 and leaves the library and the call log as they were; the run returns the
  "no tensor" marker for every combination, and the metric 0.0 as soon as one round with
  one combination has run (\<open>+infinity\<close> only when there is no round or no combination);
  the library is called exactly twice, to initialise and to free the session.
\<close>

theorem degenerate_run_no_update:
  assumes "n_classes \<le> 1"
    and "NativeEBMTraining_init lib ''classification'' n_classes features
           feature_combinations data n_inner_bags random_state w = (w1, Inr self)"
  shows "(\<forall>i w'. training_step lib self i learning_rate max_tree_splits min_cases_for_splits
                    training_step_episodes w' = (w', Inr (Fin 0)))
         \<and> (\<exists>idx. cyclic_gradient_boost lib ''classification'' n_classes features
                     feature_combinations data n_inner_bags random_state learning_rate
                     max_tree_splits min_cases_for_splits training_step_episodes
                     data_n_episodes early_stopping_tolerance early_stopping_run_length w
                   = (close lib self w1,
                      Inr (replicate (length feature_combinations) None,
                           (if 1 \<le> data_n_episodes \<and> feature_combinations \<noteq> []
                            then Fin 0 else PInf),
                           idx)))
         \<and> calls (close lib self w1)
             = calls w @ [Call_InitializeTrainingClassification (self_model_pointer self),
                          Call_FreeTraining (self_model_pointer self)]"
proof -
  note init = NativeEBMTraining_init_Inr [OF assms(2)]
  have q: "quiet self training_step_episodes"
    using init assms(1) by (simp add: quiet_def)
  have steps: "\<forall>i w'. training_step lib self i learning_rate max_tree_splits
                  min_cases_for_splits training_step_episodes w' = (w', Inr (Fin 0))"
    by (simp add: training_step_quiet [OF q])
  obtain st where st:
    "boosting_loop lib self learning_rate max_tree_splits min_cases_for_splits
       training_step_episodes data_n_episodes early_stopping_tolerance
       early_stopping_run_length w1 = (w1, Inr st)"
    "min_metric st = (if 1 \<le> data_n_episodes \<and> self_feature_combinations self \<noteq> []
                      then Fin 0 else PInf)"
    using boosting_loop_quiet [OF q] by blast
  have best: "get_best_model lib self w1
                = (w1, Inr (replicate (length feature_combinations) None))"
    using get_best_model_degenerate [of self lib w1] init assms(1) by simp
  have run: "cyclic_gradient_boost lib ''classification'' n_classes features
               feature_combinations data n_inner_bags random_state learning_rate
               max_tree_splits min_cases_for_splits training_step_episodes
               data_n_episodes early_stopping_tolerance early_stopping_run_length w
             = (close lib self w1,
                Inr (replicate (length feature_combinations) None,
                     (if 1 \<le> data_n_episodes \<and> feature_combinations \<noteq> []
                      then Fin 0 else PInf),
                     episode_index st))"
    using st best init by (simp add: cyclic_gradient_boost_def assms(2))
  have log: "calls (close lib self w1)
               = calls w @ [Call_InitializeTrainingClassification (self_model_pointer self),
                            Call_FreeTraining (self_model_pointer self)]"
    using init by (auto simp: close_def)
  from steps run log show ?thesis by blast
qed

theorem degenerate_run_no_update_witness:
  "cyclic_gradient_boost (script_lib 7) ''classification'' 1 [example_feature 3]
     [\<lparr>attributes = [0]\<rparr>] () 0 0 (Fin 0.01) 2 2 1 4 (Fin 0.01) 2 (script_world [])
   = (\<lparr>estate = [], calls = [Call_InitializeTrainingClassification 7, Call_FreeTraining 7]\<rparr>,
      Inr ([None], Fin 0, 1))"
proof -
  let ?self = "\<lparr>self_model_pointer = 7, self_model_type = ''classification'',
                self_n_classes = 1, self_features = [example_feature 3],
                self_feature_combinations = [\<lparr>attributes = [0]\<rparr>]\<rparr>"
  let ?w1 = "\<lparr>estate = [], calls = [Call_InitializeTrainingClassification 7]\<rparr>"
  have h1: "(1::int) \<le> 1" by simp
  have h2: "NativeEBMTraining_init (script_lib 7) ''classification'' 1 [example_feature 3]
              [\<lparr>attributes = [0]\<rparr>] () 0 0 (script_world []) = (?w1, Inr ?self)"
    by code_simp
  have c: "close (script_lib 7) ?self ?w1
             = \<lparr>estate = [], calls = [Call_InitializeTrainingClassification 7,
                                       Call_FreeTraining 7]\<rparr>"
    by code_simp
  from degenerate_run_no_update [OF h1 h2, of "Fin 0.01" 2 2 1 4 "Fin 0.01" 2]
  obtain idx where
    r: "cyclic_gradient_boost (script_lib 7) ''classification'' 1 [example_feature 3]
          [\<lparr>attributes = [0]\<rparr>] () 0 0 (Fin 0.01) 2 2 1 4 (Fin 0.01) 2 (script_world [])
        = (close (script_lib 7) ?self ?w1, Inr ([None], Fin 0, idx))"
    by auto
  have "returned_episode_index
          (cyclic_gradient_boost (script_lib 7) ''classification'' 1 [example_feature 3]
             [\<lparr>attributes = [0]\<rparr>] () 0 0 (Fin 0.01) 2 2 1 4 (Fin 0.01) 2 (script_world []))
        = Some 1"
    by code_simp
  with r have "idx = 1" by (simp add: returned_episode_index_def)
  with r c show ?thesis by simp
qed

section \<open>The round log of the boosting loop\<close>

lemma simps_update [simp]:
  "episode_index (early_stopping_update tol m r st) = r"
  "left_by_break (early_stopping_update tol m r st) = left_by_break st"
  "round_log (early_stopping_update tol m r st)
     = round_log st @ [(m, no_change_run_length (early_stopping_update tol m r st))]"
  by (simp_all add: early_stopping_update_def Let_def)

lemma py_range_nth: "k < nat n \<Longrightarrow> py_range n ! k = int k"
  by (simp add: py_range_def)

lemma returns_obtain: "\<not> isl (snd r) \<Longrightarrow> \<exists>w x. r = (w, Inr x)"
  by (cases r, cases "snd r") auto

lemma boost_rounds_log:
  assumes "boost_rounds lib self lr mts mcs tse tol rl rounds st w = (w', Inr st')"
    and "\<not> left_by_break st"
  shows "\<exists>new. round_log st' = round_log st @ new
           \<and> length new \<le> length rounds
           \<and> (left_by_break st' \<longleftrightarrow> rl \<ge> 0 \<and> (\<exists>c \<in> set (map snd new). c \<ge> rl))
           \<and> (\<not> left_by_break st' \<longrightarrow> length new = length rounds)
           \<and> (left_by_break st' \<longrightarrow> new \<noteq> [] \<and> snd (last new) \<ge> rl
                 \<and> (\<forall>c \<in> set (map snd (butlast new)). \<not> c \<ge> rl))
           \<and> episode_index st'
               = (if new = [] then episode_index st else rounds ! (length new - 1))
           \<and> no_change_run_length st'
               = (if new = [] then no_change_run_length st else snd (last new))
           \<and> min_metric st' = (if new = [] then min_metric st else fst (last new))"
  using assms
proof (induction rounds arbitrary: st w)
  case Nil
  then show ?case by simp
next
  case (Cons r rounds)
  obtain w1 res where sweep:
    "boost_combinations lib self lr mts mcs tse
       (py_range (int (length (self_feature_combinations self)))) (min_metric st) w
     = (w1, res)"
    by (cases "boost_combinations lib self lr mts mcs tse
                 (py_range (int (length (self_feature_combinations self))))
                 (min_metric st) w")
  from Cons.prems(1) sweep obtain m where m: "res = Inr m"
    by (cases res) auto
  let ?st1 = "early_stopping_update tol m r st"
  let ?c = "no_change_run_length ?st1"
  show ?case
  proof (cases "rl \<ge> 0 \<and> ?c \<ge> rl")
    case True
    with Cons.prems(1) sweep m have st': "st' = ?st1\<lparr>left_by_break := True\<rparr>"
      by (simp add: Let_def)
    show ?thesis
      by (rule exI [of _ "[(m, ?c)]"]) (use True st' in simp)
  next
    case False
    with Cons.prems(1) sweep m have rest:
      "boost_rounds lib self lr mts mcs tse tol rl rounds ?st1 w1 = (w', Inr st')"
      by (simp add: Let_def)
    have nb: "\<not> left_by_break ?st1" using Cons.prems(2) by simp
    from Cons.IH [OF rest nb] obtain new where new:
      "round_log st' = round_log ?st1 @ new"
      "length new \<le> length rounds"
      "left_by_break st' \<longleftrightarrow> rl \<ge> 0 \<and> (\<exists>c \<in> set (map snd new). c \<ge> rl)"
      "\<not> left_by_break st' \<longrightarrow> length new = length rounds"
      "left_by_break st' \<longrightarrow> new \<noteq> [] \<and> snd (last new) \<ge> rl
          \<and> (\<forall>c \<in> set (map snd (butlast new)). \<not> c \<ge> rl)"
      "episode_index st'
         = (if new = [] then episode_index ?st1 else rounds ! (length new - 1))"
      "no_change_run_length st'
         = (if new = [] then no_change_run_length ?st1 else snd (last new))"
      "min_metric st' = (if new = [] then min_metric ?st1 else fst (last new))"
      by blast
    let ?new = "(m, ?c) # new"
    have 1: "round_log st' = round_log st @ ?new" using new(1) by simp
    have 2: "length ?new \<le> length (r # rounds)" using new(2) by simp
    have 3: "left_by_break st' \<longleftrightarrow> rl \<ge> 0 \<and> (\<exists>c \<in> set (map snd ?new). c \<ge> rl)"
      using new(3) False by auto
    have 4: "\<not> left_by_break st' \<longrightarrow> length ?new = length (r # rounds)"
      using new(4) by simp
    have 5: "left_by_break st' \<longrightarrow> ?new \<noteq> [] \<and> snd (last ?new) \<ge> rl
               \<and> (\<forall>c \<in> set (map snd (butlast ?new)). \<not> c \<ge> rl)"
      using new(5) new(3) False by auto
    have 6: "episode_index st'
               = (if ?new = [] then episode_index st
                  else (r # rounds) ! (length ?new - 1))"
      using new(6) by (cases new) simp_all
    have 7: "no_change_run_length st'
               = (if ?new = [] then no_change_run_length st else snd (last ?new))"
      using new(7) by simp
    have 8: "min_metric st' = (if ?new = [] then min_metric st else fst (last ?new))"
      using new(8) by simp
    show ?thesis
      by (rule exI [of _ ?new]) (intro conjI 1 2 3 4 5 6 7 8)
  qed
qed

lemma boost_rounds_invariant:
  assumes "boost_rounds lib self lr mts mcs tse tol rl rounds st w = (w', Inr st')"
    and "I st"
    and step: "\<And>st m r. I st \<Longrightarrow> I (early_stopping_update tol m r st)"
    and brk: "\<And>st. I st \<Longrightarrow> I (st\<lparr>left_by_break := True\<rparr>)"
  shows "I st'"
  using assms(1,2)
proof (induction rounds arbitrary: st w)
  case Nil
  then show ?case by simp
next
  case (Cons r rounds)
  obtain w1 res where sweep:
    "boost_combinations lib self lr mts mcs tse
       (py_range (int (length (self_feature_combinations self)))) (min_metric st) w
     = (w1, res)"
    by (cases "boost_combinations lib self lr mts mcs tse
                 (py_range (int (length (self_feature_combinations self))))
                 (min_metric st) w")
  from Cons.prems(1) sweep obtain m where m: "res = Inr m"
    by (cases res) auto
  let ?st1 = "early_stopping_update tol m r st"
  have I1: "I ?st1" using Cons.prems(2) by (rule step)
  show ?case
  proof (cases "rl \<ge> 0 \<and> no_change_run_length ?st1 \<ge> rl")
    case True
    with Cons.prems(1) sweep m have "st' = ?st1\<lparr>left_by_break := True\<rparr>"
      by (simp add: Let_def)
    then show ?thesis using brk [OF I1] by simp
  next
    case False
    with Cons.prems(1) sweep m have
      "boost_rounds lib self lr mts mcs tse tol rl rounds ?st1 w1 = (w', Inr st')"
      by (simp add: Let_def)
    then show ?thesis using I1 by (rule Cons.IH)
  qed
qed

section \<open>C2: the early-stopping scenario\<close>

text \<open>
  C2, as stated: with tolerance 0.01, run length 2 and the metrics 1.0, 0.995, 0.994,
  0.994 (one feature combination, one episode per step, so that every round yields the
  next metric) the returned round index is 3. It is not 3.
\<close>

theorem early_stopping_scenario_counterexample:
  "returned_episode_index
     (cyclic_gradient_boost (script_lib 7) ''regression'' 0 [example_feature 3]
        [\<lparr>attributes = [0]\<rparr>] () 0 0 (Fin 0.01) 2 2 1 4 (Fin 0.01) 2
        (script_world [Fin 1.0, Fin 0.995, Fin 0.994, Fin 0.994]))
   \<noteq> Some 3"
  by code_simp

text \<open>
  C2, amended: in that scenario the loop stops after round index 1. Round 0 sets the
  baseline to 1.0 and counts a stall (1.0 + 0.01 is not below 1.0); round 1 keeps the
  baseline, and 0.995 + 0.01 is not below 1.0 either, so the counter reaches 2 and the
  loop breaks. The run returns the index 1 and the metric 0.995, and the last two metrics
  are never asked for.
\<close>

theorem early_stopping_scenario:
  "returned_episode_index
     (cyclic_gradient_boost (script_lib 7) ''regression'' 0 [example_feature 3]
        [\<lparr>attributes = [0]\<rparr>] () 0 0 (Fin 0.01) 2 2 1 4 (Fin 0.01) 2
        (script_world [Fin 1.0, Fin 0.995, Fin 0.994, Fin 0.994])) = Some 1
   \<and> returned_min_metric
     (cyclic_gradient_boost (script_lib 7) ''regression'' 0 [example_feature 3]
        [\<lparr>attributes = [0]\<rparr>] () 0 0 (Fin 0.01) 2 2 1 4 (Fin 0.01) 2
        (script_world [Fin 1.0, Fin 0.995, Fin 0.994, Fin 0.994])) = Some (Fin 0.995)
   \<and> estate (fst
     (cyclic_gradient_boost (script_lib 7) ''regression'' 0 [example_feature 3]
        [\<lparr>attributes = [0]\<rparr>] () 0 0 (Fin 0.01) 2 2 1 4 (Fin 0.01) 2
        (script_world [Fin 1.0, Fin 0.995, Fin 0.994, Fin 0.994]))) = [Fin 0.994, Fin 0.994]
   \<and> stall_counters
     (boosting_loop (script_lib 7) one_feature_training (Fin 0.01) 2 2 1 4 (Fin 0.01) 2
        (script_world [Fin 1.0, Fin 0.995, Fin 0.994, Fin 0.994])) = [1, 2]"
  by code_simp

theorem early_stopping_scenario_witness:
  "returned_episode_index
     (cyclic_gradient_boost (script_lib 7) ''regression'' 0 [example_feature 3]
        [\<lparr>attributes = [0]\<rparr>] () 0 0 (Fin 0.01) 2 2 1 4 (Fin 0.01) 2
        (script_world [Fin 1.0, Fin 0.995, Fin 0.994, Fin 0.994])) = Some 1"
  using early_stopping_scenario by (rule conjunct1)

section \<open>C3: the stall counter on an improving sequence\<close>

text \<open>
  C3, as stated: on a strictly decreasing metric sequence whose steps all exceed the
  tolerance the stall counter is 0 at the end of every round. With the metrics 3, 2, 1
  and the tolerance 0.5 (early stopping switched off) the counters are 1, 0, 1.
\<close>

theorem stall_counter_counterexample:
  "round_metrics
     (boosting_loop (script_lib 7) one_feature_training (Fin 0.01) 2 2 1 3 (Fin 0.5) (- 1)
        (script_world [Fin 3, Fin 2, Fin 1])) = [Fin 3, Fin 2, Fin 1]
   \<and> stall_counters
     (boosting_loop (script_lib 7) one_feature_training (Fin 0.01) 2 2 1 3 (Fin 0.5) (- 1)
        (script_world [Fin 3, Fin 2, Fin 1])) = [1, 0, 1]"
  by code_simp

lemma improving_butlast: "improving tol (ms @ [m]) \<Longrightarrow> improving tol ms"
  unfolding improving_def
proof (intro allI impI)
  fix i
  assume a: "\<forall>i. Suc i < length (ms @ [m]) \<longrightarrow>
                 fless (fadd ((ms @ [m]) ! Suc i) tol) ((ms @ [m]) ! i)"
    and b: "Suc i < length ms"
  from a b have "fless (fadd ((ms @ [m]) ! Suc i) tol) ((ms @ [m]) ! i)" by simp
  with b show "fless (fadd (ms ! Suc i) tol) (ms ! i)" by (simp add: nth_append)
qed

lemma improving_last:
  assumes "improving tol (ms @ [m])" and "ms \<noteq> []"
  shows "fless (fadd m tol) (last ms)"
proof -
  from assms(2) obtain k where k: "length ms = Suc k" by (cases ms) auto
  from assms(1) k have "fless (fadd ((ms @ [m]) ! Suc k) tol) ((ms @ [m]) ! k)"
    unfolding improving_def by simp
  moreover have "(ms @ [m]) ! Suc k = m" using k by (metis nth_append_length)
  moreover have "(ms @ [m]) ! k = last ms"
    using k assms(2) by (simp add: nth_append last_conv_nth)
  ultimately show ?thesis by simp
qed

lemma stalling_alone_snoc:
  "stalling_alone tol (ms @ [m]) = (stalling_alone tol ms \<and> \<not> fless (fadd m tol) m)"
  by (auto simp: stalling_alone_def)

lemma alternating_break [simp]: "alternating (st\<lparr>left_by_break := True\<rparr>) = alternating st"
  by (simp add: alternating_def)

lemma stall_inv_step:
  assumes inv: "stall_inv tol st"
  shows "stall_inv tol (early_stopping_update tol m r st)"
  unfolding stall_inv_def
proof (intro impI, elim conjE)
  let ?st1 = "early_stopping_update tol m r st"
  let ?ms = "map fst (round_log st)"
  assume "improving tol (map fst (round_log ?st1))"
    and "stalling_alone tol (map fst (round_log ?st1))"
  then have imp1: "improving tol (?ms @ [m])" and own1: "stalling_alone tol (?ms @ [m])"
    by simp_all
  have imp0: "improving tol ?ms" using imp1 by (rule improving_butlast)
  have own0: "stalling_alone tol ?ms" and own: "\<not> fless (fadd m tol) m"
    using own1 by (simp_all add: stalling_alone_snoc)
  from inv imp0 own0 have alt: "alternating st"
    and bp: "odd (length (round_log st)) \<longrightarrow> bp_metric st = fst (last (round_log st))"
    unfolding stall_inv_def by blast+
  show "alternating ?st1
        \<and> (odd (length (round_log ?st1)) \<longrightarrow> bp_metric ?st1 = fst (last (round_log ?st1)))"
  proof (cases "even (length (round_log st))")
    case True
    then have nc0: "no_change_run_length st = 0" using alt by (simp add: alternating_def)
    have nc1: "no_change_run_length ?st1 = 1"
      using nc0 own by (simp add: early_stopping_update_def Let_def)
    have bp1: "bp_metric ?st1 = m"
      using nc0 by (simp add: early_stopping_update_def Let_def)
    have "alternating ?st1"
      using alt True nc1 by (auto simp: alternating_def nth_append less_Suc_eq)
    then show ?thesis using bp1 by simp
  next
    case False
    then have nc0: "no_change_run_length st = 1" using alt by (simp add: alternating_def)
    from False have ne: "round_log st \<noteq> []" by auto
    then have "fless (fadd m tol) (last ?ms)" using imp1 improving_last by simp
    then have lt: "fless (fadd m tol) (fst (last (round_log st)))"
      using ne by (simp add: last_map)
    have bp0: "bp_metric st = fst (last (round_log st))" using bp False by simp
    have nc1: "no_change_run_length ?st1 = 0"
      using nc0 bp0 lt by (simp add: early_stopping_update_def Let_def)
    have "alternating ?st1"
      using alt False nc1 by (auto simp: alternating_def nth_append less_Suc_eq)
    then show ?thesis using False by simp
  qed
qed

lemma stall_inv_initial: "stall_inv tol initial_loop_state"
  by (simp add: stall_inv_def alternating_def initial_loop_state_def)

lemma stall_inv_break: "stall_inv tol st \<Longrightarrow> stall_inv tol (st\<lparr>left_by_break := True\<rparr>)"
  by (auto simp: stall_inv_def)

lemma eager_inv_step:
  assumes inv: "eager_inv tol st"
  shows "eager_inv tol (early_stopping_update tol m r st)"
proof -
  let ?st1 = "early_stopping_update tol m r st"
  let ?below = "\<lambda>lg. \<forall>p \<in> set lg. fless (fadd (fst p) tol) (fst p)"
  have lg: "round_log ?st1 = round_log st @ [(m, no_change_run_length ?st1)]" by simp
  show ?thesis
  proof (cases "never_stalled st")
    case True
    with inv have below0: "?below (round_log st)" and nc0: "no_change_run_length st = 0"
      by (simp_all add: eager_inv_def)
    have nc1: "no_change_run_length ?st1 = (if fless (fadd m tol) m then 0 else 1)"
      using nc0 by (simp add: early_stopping_update_def Let_def)
    have "never_stalled ?st1 \<longleftrightarrow> fless (fadd m tol) m"
      using True nc1 lg by (auto simp: never_stalled_def)
    moreover have "?below (round_log ?st1) \<longleftrightarrow> fless (fadd m tol) m"
      using below0 lg by auto
    moreover have "never_stalled ?st1 \<longrightarrow> no_change_run_length ?st1 = 0"
      using lg by (simp add: never_stalled_def)
    ultimately show ?thesis by (simp add: eager_inv_def)
  next
    case False
    with inv have "\<not> ?below (round_log st)" by (simp add: eager_inv_def)
    then have "\<not> ?below (round_log ?st1)" using lg by auto
    moreover have "\<not> never_stalled ?st1" using False lg by (auto simp: never_stalled_def)
    ultimately show ?thesis by (simp add: eager_inv_def)
  qed
qed

lemma eager_inv_initial: "eager_inv tol initial_loop_state"
  by (simp add: eager_inv_def never_stalled_def initial_loop_state_def)

lemma eager_inv_break: "eager_inv tol st \<Longrightarrow> eager_inv tol (st\<lparr>left_by_break := True\<rparr>)"
  by (simp add: eager_inv_def never_stalled_def)

text \<open>
  C3, amended: take a boosting loop that returns, and the running minimum it held at the
  end of each round. If in every round the double sum \<open>min_metric +
  early_stopping_tolerance\<close> is below the minimum of the round before (the improvement
  exceeds the tolerance in the loop's own comparison) and is not below the minimum of
  the round itself, then the stall counter is 1 at the end of the rounds 0, 2, 4, ... and
  0 at the end of the rounds 1, 3, 5, ...: the baseline is re-anchored to the current
  minimum whenever the counter is 0, so the round after a reset counts a stall. The
  counter is 0 at the end of every round exactly when in every round that sum is below
  the round's own minimum.
\<close>

theorem stall_counter_alternates:
  assumes run: "boosting_loop lib self learning_rate max_tree_splits min_cases_for_splits
             training_step_episodes data_n_episodes early_stopping_tolerance
             early_stopping_run_length w = (w', Inr st)"
  shows "(improving early_stopping_tolerance (map fst (round_log st))
          \<and> stalling_alone early_stopping_tolerance (map fst (round_log st)) \<longrightarrow>
            (\<forall>i < length (round_log st).
               snd (round_log st ! i) = (if even i then 1 else 0)))
         \<and> ((\<forall>i < length (round_log st). snd (round_log st ! i) = 0) \<longleftrightarrow>
              (\<forall>i < length (round_log st).
                 fless (fadd (fst (round_log st ! i)) early_stopping_tolerance)
                       (fst (round_log st ! i))))"
proof (intro conjI impI)
  assume h: "improving early_stopping_tolerance (map fst (round_log st))
             \<and> stalling_alone early_stopping_tolerance (map fst (round_log st))"
  have "stall_inv early_stopping_tolerance st"
    using run [unfolded boosting_loop_def] stall_inv_initial
  proof (rule boost_rounds_invariant)
    show "\<And>st m r. stall_inv early_stopping_tolerance st \<Longrightarrow>
            stall_inv early_stopping_tolerance
              (early_stopping_update early_stopping_tolerance m r st)"
      by (rule stall_inv_step)
    show "\<And>st. stall_inv early_stopping_tolerance st \<Longrightarrow>
            stall_inv early_stopping_tolerance (st\<lparr>left_by_break := True\<rparr>)"
      by (rule stall_inv_break)
  qed
  with h have "alternating st" unfolding stall_inv_def by blast
  then show "\<forall>i < length (round_log st). snd (round_log st ! i) = (if even i then 1 else 0)"
    by (simp add: alternating_def)
next
  have "eager_inv early_stopping_tolerance st"
    using run [unfolded boosting_loop_def] eager_inv_initial
  proof (rule boost_rounds_invariant)
    show "\<And>st m r. eager_inv early_stopping_tolerance st \<Longrightarrow>
            eager_inv early_stopping_tolerance
              (early_stopping_update early_stopping_tolerance m r st)"
      by (rule eager_inv_step)
    show "\<And>st. eager_inv early_stopping_tolerance st \<Longrightarrow>
            eager_inv early_stopping_tolerance (st\<lparr>left_by_break := True\<rparr>)"
      by (rule eager_inv_break)
  qed
  then have "never_stalled st \<longleftrightarrow>
               (\<forall>p \<in> set (round_log st). fless (fadd (fst p) early_stopping_tolerance) (fst p))"
    by (simp add: eager_inv_def)
  then show "(\<forall>i < length (round_log st). snd (round_log st ! i) = 0) \<longleftrightarrow>
             (\<forall>i < length (round_log st).
                fless (fadd (fst (round_log st ! i)) early_stopping_tolerance)
                      (fst (round_log st ! i)))"
    by (simp add: never_stalled_def all_set_conv_all_nth)
qed

theorem stall_counter_alternates_witness:
  "\<exists>w' st.
     boosting_loop (script_lib 7) one_feature_training (Fin 0.01) 2 2 1 3 (Fin 0.5) (- 1)
       (script_world [Fin 3, Fin 2, Fin 1]) = (w', Inr st)
     \<and> map fst (round_log st) = [Fin 3, Fin 2, Fin 1]
     \<and> improving (Fin 0.5) (map fst (round_log st))
     \<and> stalling_alone (Fin 0.5) (map fst (round_log st))
     \<and> (\<forall>i < length (round_log st). snd (round_log st ! i) = (if even i then 1 else 0))"
proof -
  let ?r = "boosting_loop (script_lib 7) one_feature_training (Fin 0.01) 2 2 1 3 (Fin 0.5)
              (- 1) (script_world [Fin 3, Fin 2, Fin 1])"
  have "\<not> isl (snd ?r)" by code_simp
  then obtain w' st where run: "?r = (w', Inr st)"
    using returns_obtain by blast
  have "round_metrics ?r = [Fin 3, Fin 2, Fin 1]" by code_simp
  with run have ms: "map fst (round_log st) = [Fin 3, Fin 2, Fin 1]"
    by (simp add: round_metrics_def)
  have a: "fless (fadd (Fin 2) (Fin 0.5)) (Fin 3)" and b: "fless (fadd (Fin 1) (Fin 0.5)) (Fin 2)"
    and c: "\<not> fless (fadd (Fin 3) (Fin 0.5)) (Fin 3)"
    and d: "\<not> fless (fadd (Fin 2) (Fin 0.5)) (Fin 2)"
    and e: "\<not> fless (fadd (Fin 1) (Fin 0.5)) (Fin 1)"
    by code_simp+
  have imp: "improving (Fin 0.5) (map fst (round_log st))"
    unfolding ms improving_def using a b by (auto simp: less_Suc_eq)
  have own: "stalling_alone (Fin 0.5) (map fst (round_log st))"
    unfolding ms stalling_alone_def using c d e by simp
  from stall_counter_alternates [OF run] imp own
  have res: "\<forall>i < length (round_log st). snd (round_log st ! i) = (if even i then 1 else 0)"
    by blast
  show ?thesis
    by (rule exI [of _ w'], rule exI [of _ st]) (intro conjI run ms imp own res)
qed

section \<open>C4: when the loop stops before its last round\<close>

text \<open>
  C4, as stated: the loop breaks before completing all \<open>data_n_episodes\<close> rounds if and
  only if \<open>early_stopping_run_length \<ge> 0\<close> and the stall counter reaches it. With two
  rounds, the run length 2 and the metrics 1.0 and 0.995 (tolerance 0.01) the counter
  reaches 2 at the end of round 1, which is the last round: both rounds have run, and
  the run returns what it returns with early stopping switched off.
\<close>

theorem break_at_last_round_counterexample:
  "stall_counters
     (boosting_loop (script_lib 7) one_feature_training (Fin 0.01) 2 2 1 2 (Fin 0.01) 2
        (script_world [Fin 1.0, Fin 0.995])) = [1, 2]
   \<and> cyclic_gradient_boost (script_lib 7) ''regression'' 0 [example_feature 3]
        [\<lparr>attributes = [0]\<rparr>] () 0 0 (Fin 0.01) 2 2 1 2 (Fin 0.01) 2
        (script_world [Fin 1.0, Fin 0.995])
     = cyclic_gradient_boost (script_lib 7) ''regression'' 0 [example_feature 3]
        [\<lparr>attributes = [0]\<rparr>] () 0 0 (Fin 0.01) 2 2 1 2 (Fin 0.01) (- 1)
        (script_world [Fin 1.0, Fin 0.995])"
  by code_simp

text \<open>
  C4, amended: a boosting loop that returns has run fewer than \<open>data_n_episodes\<close> rounds
  (its returned round index is below \<open>data_n_episodes - 1\<close>) if and only if
  \<open>early_stopping_run_length \<ge> 0\<close> and the stall counter reached it at the end of a
  round before the last one, that is, one with an index below \<open>data_n_episodes - 1\<close>. No
  round runs after one at whose end the counter has reached the run length. With a
  negative run length (-1 in particular) all \<open>data_n_episodes\<close> rounds run. The returned
  round index is the index of the last round that ran.
\<close>

theorem early_stopping_break_iff:
  assumes "boosting_loop lib self learning_rate max_tree_splits min_cases_for_splits
             training_step_episodes data_n_episodes early_stopping_tolerance
             early_stopping_run_length w = (w', Inr st)"
  shows "(length (round_log st) < nat data_n_episodes \<longleftrightarrow>
            early_stopping_run_length \<ge> 0
            \<and> (\<exists>i < length (round_log st).
                  int i < data_n_episodes - 1
                  \<and> snd (round_log st ! i) \<ge> early_stopping_run_length))
         \<and> (episode_index st < data_n_episodes - 1 \<longleftrightarrow>
              length (round_log st) < nat data_n_episodes)
         \<and> (\<forall>i. Suc i < length (round_log st) \<longrightarrow>
                \<not> (early_stopping_run_length \<ge> 0
                   \<and> snd (round_log st ! i) \<ge> early_stopping_run_length))
         \<and> (early_stopping_run_length < 0 \<longrightarrow> length (round_log st) = nat data_n_episodes)
         \<and> length (round_log st) \<le> nat data_n_episodes
         \<and> episode_index st
             = (if round_log st = [] then 0 else int (length (round_log st)) - 1)"
proof -
  let ?lg = "round_log st"
  let ?rl = "early_stopping_run_length"
  have nb: "\<not> left_by_break initial_loop_state" by (simp add: initial_loop_state_def)
  from boost_rounds_log [OF assms [unfolded boosting_loop_def] nb]
  obtain new where new:
    "round_log st = round_log initial_loop_state @ new"
    "length new \<le> length (py_range data_n_episodes)"
    "left_by_break st \<longleftrightarrow> ?rl \<ge> 0 \<and> (\<exists>c \<in> set (map snd new). c \<ge> ?rl)"
    "\<not> left_by_break st \<longrightarrow> length new = length (py_range data_n_episodes)"
    "left_by_break st \<longrightarrow> new \<noteq> [] \<and> snd (last new) \<ge> ?rl
       \<and> (\<forall>c \<in> set (map snd (butlast new)). \<not> c \<ge> ?rl)"
    "episode_index st
       = (if new = [] then episode_index initial_loop_state
          else py_range data_n_episodes ! (length new - 1))"
    by blast
  have log: "?lg = new" using new(1) by (simp add: initial_loop_state_def)
  have len: "length ?lg \<le> nat data_n_episodes"
    using new(2) log by (simp add: length_py_range)
  have f2: "left_by_break st \<longleftrightarrow> ?rl \<ge> 0 \<and> (\<exists>c \<in> set (map snd ?lg). c \<ge> ?rl)"
    using new(3) log by simp
  have f3: "\<not> left_by_break st \<longrightarrow> length ?lg = nat data_n_episodes"
    using new(4) log by (simp add: length_py_range)
  have f4: "left_by_break st \<longrightarrow> ?lg \<noteq> [] \<and> snd (last ?lg) \<ge> ?rl
              \<and> (\<forall>c \<in> set (map snd (butlast ?lg)). \<not> c \<ge> ?rl)"
    using new(5) log by simp
  have idx: "episode_index st = (if ?lg = [] then 0 else int (length ?lg) - 1)"
  proof (cases "new = []")
    case True
    then show ?thesis using new(6) log by (simp add: initial_loop_state_def)
  next
    case False
    then have "length new - 1 < nat data_n_episodes" using len log
      by (cases new) auto
    then have "py_range data_n_episodes ! (length new - 1) = int (length new - 1)"
      by (rule py_range_nth)
    then show ?thesis using new(6) False log by (cases new) auto
  qed
  have early: "\<forall>i. Suc i < length ?lg \<longrightarrow> \<not> (?rl \<ge> 0 \<and> snd (?lg ! i) \<ge> ?rl)"
  proof (intro allI impI)
    fix i assume i: "Suc i < length ?lg"
    then have mem: "snd (?lg ! i) \<in> set (map snd (butlast ?lg))"
      by (metis (no_types, lifting) Suc_lessD image_eqI in_set_conv_nth length_butlast
          less_diff_conv list.set_map nth_butlast plus_1_eq_Suc add.commute)
    have mem2: "snd (?lg ! i) \<in> set (map snd ?lg)"
      using i by simp
    show "\<not> (?rl \<ge> 0 \<and> snd (?lg ! i) \<ge> ?rl)"
    proof (cases "left_by_break st")
      case True
      with f4 mem show ?thesis by blast
    next
      case False
      with f2 mem2 show ?thesis by blast
    qed
  qed
  have nonempty: "1 \<le> data_n_episodes \<Longrightarrow> ?lg \<noteq> []"
  proof (cases "left_by_break st")
    case True
    with f4 show ?thesis by simp
  next
    case False
    assume "1 \<le> data_n_episodes"
    with False f3 show ?thesis by auto
  qed
  have a: "length ?lg < nat data_n_episodes \<longleftrightarrow>
             ?rl \<ge> 0 \<and> (\<exists>i < length ?lg. int i < data_n_episodes - 1 \<and> snd (?lg ! i) \<ge> ?rl)"
  proof
    assume short: "length ?lg < nat data_n_episodes"
    with f3 have lb: "left_by_break st" by auto
    with f4 have ne: "?lg \<noteq> []" and last: "snd (last ?lg) \<ge> ?rl" by simp_all
    from lb f2 have rl: "?rl \<ge> 0" by simp
    let ?i = "length ?lg - 1"
    have 1: "?i < length ?lg" using ne by simp
    have 2: "int ?i < data_n_episodes - 1" using short ne by (cases ?lg) auto
    have 3: "snd (?lg ! ?i) \<ge> ?rl" using last ne by (simp add: last_conv_nth)
    from rl 1 2 3 show "?rl \<ge> 0 \<and> (\<exists>i < length ?lg. int i < data_n_episodes - 1
                                       \<and> snd (?lg ! i) \<ge> ?rl)"
      by blast
  next
    assume "?rl \<ge> 0 \<and> (\<exists>i < length ?lg. int i < data_n_episodes - 1 \<and> snd (?lg ! i) \<ge> ?rl)"
    then obtain i where rl: "?rl \<ge> 0" and i: "i < length ?lg"
      and before: "int i < data_n_episodes - 1" and reach: "snd (?lg ! i) \<ge> ?rl"
      by blast
    from early rl reach have "\<not> Suc i < length ?lg" by blast
    with i have "length ?lg = Suc i" by simp
    with before show "length ?lg < nat data_n_episodes" by simp
  qed
  have b: "episode_index st < data_n_episodes - 1 \<longleftrightarrow> length ?lg < nat data_n_episodes"
  proof (cases "?lg = []")
    case True
    with nonempty have "data_n_episodes < 1" by force
    with True idx show ?thesis by simp
  next
    case False
    then have "1 \<le> length ?lg" by (cases ?lg) auto
    with idx False show ?thesis by auto
  qed
  have d: "?rl < 0 \<longrightarrow> length ?lg = nat data_n_episodes"
    using f2 f3 by auto
  show ?thesis
    by (intro conjI a b early d len idx)
qed

theorem early_stopping_break_iff_witness:
  "(\<exists>w' st.
      boosting_loop (script_lib 7) one_feature_training (Fin 0.01) 2 2 1 3 (Fin 0.5) (- 1)
        (script_world [Fin 3, Fin 2, Fin 1]) = (w', Inr st)
      \<and> length (round_log st) = 3 \<and> episode_index st = 2)
   \<and> (\<exists>w' st.
      boosting_loop (script_lib 7) one_feature_training (Fin 0.01) 2 2 1 3 (Fin 0.5) 1
        (script_world [Fin 3, Fin 2, Fin 1]) = (w', Inr st)
      \<and> map snd (round_log st) = [1] \<and> episode_index st = 0
      \<and> length (round_log st) < nat 3)"
proof -
  let ?r = "boosting_loop (script_lib 7) one_feature_training (Fin 0.01) 2 2 1 3 (Fin 0.5)
              (- 1) (script_world [Fin 3, Fin 2, Fin 1])"
  let ?q = "boosting_loop (script_lib 7) one_feature_training (Fin 0.01) 2 2 1 3 (Fin 0.5)
              1 (script_world [Fin 3, Fin 2, Fin 1])"
  have "\<not> isl (snd ?r)" by code_simp
  then obtain w' st where run: "?r = (w', Inr st)"
    using returns_obtain by blast
  from early_stopping_break_iff [OF run]
  have "length (round_log st) = 3 \<and> episode_index st = 2"
    by auto
  with run have a: "\<exists>w' st. ?r = (w', Inr st) \<and> length (round_log st) = 3
                      \<and> episode_index st = 2"
    by blast
  have "\<not> isl (snd ?q)" by code_simp
  then obtain v' su where run2: "?q = (v', Inr su)"
    using returns_obtain by blast
  have "stall_counters ?q = [1]" by code_simp
  with run2 have sc: "map snd (round_log su) = [1]"
    by (simp add: stall_counters_def)
  then have "length (map snd (round_log su)) = 1" by simp
  then have len: "length (round_log su) = 1" by simp
  have "snd (round_log su ! 0) = map snd (round_log su) ! 0"
    using len by simp
  then have reach: "snd (round_log su ! 0) \<ge> 1" using sc by simp
  have "(1::int) \<ge> 0 \<and> (\<exists>i < length (round_log su). int i < 3 - 1
                              \<and> snd (round_log su ! i) \<ge> 1)"
    using len reach by (intro conjI exI [of _ 0]) simp_all
  with early_stopping_break_iff [OF run2]
  have short: "length (round_log su) < nat 3" by blast
  from early_stopping_break_iff [OF run2] len
  have idx: "episode_index su = 0" by auto
  have b: "\<exists>w' st. ?q = (w', Inr st) \<and> map snd (round_log st) = [1]
             \<and> episode_index st = 0 \<and> length (round_log st) < nat 3"
    by (rule exI [of _ v'], rule exI [of _ su]) (intro conjI run2 sc idx short)
  from a b show ?thesis by (rule conjI)
qed

section \<open>C6: no tensor for a classification with at most one class\<close>

text \<open>
  C6: for a classification session with \<open>n_classes \<le> 1\<close>, \<open>get_best_model\<close> and
  \<open>get_current_model\<close> return \<open>None\<close> for every feature combination, and so do the
  two accessors for every index; the library state and the call log are returned as
  they were, so no call was made.
\<close>

theorem degenerate_model_no_tensor:
  assumes "self_model_type self = ''classification''" and "self_n_classes self \<le> 1"
  shows "get_best_model lib self w
           = (w, Inr (replicate (length (self_feature_combinations self)) None))
         \<and> get_current_model lib self w
           = (w, Inr (replicate (length (self_feature_combinations self)) None))
         \<and> get_best_model_feature_combination lib self feature_combination_index w
           = (w, Inr None)
         \<and> get_current_model_feature_combination lib self feature_combination_index w
           = (w, Inr None)"
  using assms
  by (simp add: get_best_model_degenerate get_current_model_degenerate
        get_best_model_feature_combination_def get_current_model_feature_combination_def)

theorem degenerate_model_no_tensor_witness:
  "get_best_model (script_lib 7) (example_training ''classification'' 1) (script_world [])
     = (script_world [], Inr [None, None])
   \<and> get_current_model (script_lib 7) (example_training ''classification'' 1) (script_world [])
     = (script_world [], Inr [None, None])
   \<and> get_best_model_feature_combination (script_lib 7)
       (example_training ''classification'' 1) 1 (script_world [])
     = (script_world [], Inr None)
   \<and> get_current_model_feature_combination (script_lib 7)
       (example_training ''classification'' 1) 1 (script_world [])
     = (script_world [], Inr None)"
proof -
  have h1: "self_model_type (example_training ''classification'' 1) = ''classification''"
    by (simp add: example_training_def)
  have h2: "self_n_classes (example_training ''classification'' 1) \<le> 1"
    by (simp add: example_training_def)
  have n: "replicate (length (self_feature_combinations
                                (example_training ''classification'' 1))) None
             = [None, None]"
    by (simp add: example_training_def)
  show ?thesis
    using degenerate_model_no_tensor [OF h1 h2, of "script_lib 7" "script_world []" 1]
    by (simp only: n)
qed

section \<open>C10: a training step of zero episodes\<close>

text \<open>
  C10: for every feature combination index, \<open>training_step\<close> with
  \<open>training_step_episodes = 0\<close> returns the metric 0.0 and leaves the library state and
  the call log as they were; a boosting loop of at least one round over at least one
  combination then ends with 0.0 as its running minimum, without any call.
\<close>

theorem training_step_zero_episodes:
  "training_step lib self feature_combination_index learning_rate max_tree_splits
     min_cases_for_split 0 w = (w, Inr (Fin 0))
   \<and> (1 \<le> data_n_episodes \<and> self_feature_combinations self \<noteq> [] \<longrightarrow>
        (\<exists>st. boosting_loop lib self learning_rate max_tree_splits min_cases_for_split 0
                data_n_episodes early_stopping_tolerance early_stopping_run_length w
              = (w, Inr st)
              \<and> min_metric st = Fin 0))"
proof -
  have q: "quiet self 0" by (simp add: quiet_def)
  have "training_step lib self feature_combination_index learning_rate max_tree_splits
          min_cases_for_split 0 w = (w, Inr (Fin 0))"
    by (rule training_step_quiet [OF q])
  moreover have "\<exists>st. boosting_loop lib self learning_rate max_tree_splits
                   min_cases_for_split 0 data_n_episodes early_stopping_tolerance
                   early_stopping_run_length w = (w, Inr st)
                 \<and> min_metric st = Fin 0"
    if "1 \<le> data_n_episodes \<and> self_feature_combinations self \<noteq> []"
    using boosting_loop_quiet [OF q, of lib learning_rate max_tree_splits
            min_cases_for_split data_n_episodes early_stopping_tolerance
            early_stopping_run_length w] that
    by simp
  ultimately show ?thesis by blast
qed

theorem training_step_zero_episodes_witness:
  "training_step (script_lib 7) (example_training ''regression'' 0) 1 (Fin 0.01) 2 2 0
     (script_world [Fin 5]) = (script_world [Fin 5], Inr (Fin 0))
   \<and> (\<exists>st. boosting_loop (script_lib 7) (example_training ''regression'' 0) (Fin 0.01) 2 2 0
              3 (Fin 0.01) (-1) (script_world [Fin 5]) = (script_world [Fin 5], Inr st)
            \<and> min_metric st = Fin 0)"
proof -
  have h: "(1::int) \<le> 3
           \<and> self_feature_combinations (example_training ''regression'' 0) \<noteq> []"
    by (simp add: example_training_def)
  show ?thesis
    using training_step_zero_episodes
            [of "script_lib 7" "example_training ''regression'' 0" 1 "Fin 0.01" 2 2
                "script_world [Fin 5]" 3 "Fin 0.01" "-1"] h
    by blast
qed

section \<open>C5: the shape of a model tensor\<close>

lemma py_index_valid: "valid_index xs i \<Longrightarrow> py_index xs i = Inr (feature_at xs i)"
  by (auto simp: valid_index_def py_index_def feature_at_def)

lemma collect_bins_valid:
  "list_all (valid_index features) attrs \<Longrightarrow>
   collect_bins features attrs = Inr (map (\<lambda>a. n_bins (feature_at features a)) attrs)"
  by (induction attrs) (simp_all add: py_index_valid)

text \<open>
  C5: for a feature combination whose attributes are indices the feature table accepts,
  the shape is the list of its features' bin counts in reverse order, followed by
  \<open>n_classes\<close> when the model is a classification with more than two classes; its rank
  is the size of the combination, plus one in that case. The scenario with the
  combinations [[0],[1]] and the bin counts [3,4] under regression is checked after it.
\<close>

theorem feature_combination_shape:
  assumes "py_index (self_feature_combinations self) feature_combination_index = Inr fc"
    and "list_all (valid_index (self_features self)) (attributes fc)"
  shows "\<exists>shape.
           get_feature_combination_shape self feature_combination_index = Inr shape
           \<and> shape = rev (map (\<lambda>a. n_bins (feature_at (self_features self) a)) (attributes fc))
                     @ (if self_model_type self = ''classification'' \<and> self_n_classes self > 2
                        then [self_n_classes self] else [])
           \<and> length shape = length (attributes fc)
                             + (if self_model_type self = ''classification''
                                   \<and> self_n_classes self > 2 then 1 else 0)"
  using assms by (simp add: get_feature_combination_shape_def collect_bins_valid)

theorem feature_combination_shape_witness:
  "get_feature_combination_shape (example_training ''regression'' 0) 0 = Inr [3]
   \<and> get_feature_combination_shape (example_training ''regression'' 0) 1 = Inr [4]
   \<and> get_feature_combination_shape (example_training ''classification'' 3) 1 = Inr [4, 3]"
proof -
  have fcs: "\<And>t n. self_feature_combinations (example_training t n)
                     = [\<lparr>attributes = [0]\<rparr>, \<lparr>attributes = [1]\<rparr>]"
    and fs: "\<And>t n. self_features (example_training t n) = [example_feature 3, example_feature 4]"
    by (simp_all add: example_training_def)
  have i0: "\<And>t n. py_index (self_feature_combinations (example_training t n)) 0
                   = Inr \<lparr>attributes = [0]\<rparr>"
    by (simp add: fcs py_index_def)
  have i1: "\<And>t n. py_index (self_feature_combinations (example_training t n)) 1
                   = Inr \<lparr>attributes = [1]\<rparr>"
    by (simp add: fcs py_index_def)
  have v0: "\<And>t n. list_all (valid_index (self_features (example_training t n)))
                     (attributes \<lparr>attributes = [0]\<rparr>)"
    by (simp add: fs valid_index_def)
  have v1: "\<And>t n. list_all (valid_index (self_features (example_training t n)))
                     (attributes \<lparr>attributes = [1]\<rparr>)"
    by (simp add: fs valid_index_def)
  have a: "get_feature_combination_shape (example_training ''regression'' 0) 0 = Inr [3]"
    using feature_combination_shape [OF i0 v0, of "''regression''" 0]
    by (simp add: fs feature_at_def example_feature_def) (simp add: example_training_def)
  have b: "get_feature_combination_shape (example_training ''regression'' 0) 1 = Inr [4]"
    using feature_combination_shape [OF i1 v1, of "''regression''" 0]
    by (simp add: fs feature_at_def example_feature_def) (simp add: example_training_def)
  have c: "get_feature_combination_shape (example_training ''classification'' 3) 1
             = Inr [4, 3]"
    using feature_combination_shape [OF i1 v1, of "''classification''" 3]
    by (simp add: fs feature_at_def example_feature_def) (simp add: example_training_def)
  from a b c show ?thesis by simp
qed

section \<open>C7: ranking the interactions\<close>

text \<open>
  C7, as stated: for every candidate list and every \<open>n\<close> the ranking returns exactly
  \<open>min(n, len(candidates))\<close> pairs. With the five candidates of the scenario and
  \<open>n = -2\<close> the slice \<open>[0:-2]\<close> returns three pairs.
\<close>

theorem negative_count_counterexample:
  "\<not> isl (snd (get_interactions (script_lib 7) (- 2) example_candidates ''regression'' 0
                   four_features () (script_world example_scores)))
   \<and> int (length (returned_indices
                    (get_interactions (script_lib 7) (- 2) example_candidates ''regression'' 0
                       four_features () (script_world example_scores))))
       \<noteq> min (- 2) (int (length example_candidates))"
  by code_simp

lemma fless_irrefl [simp]: "\<not> fless a a"
  by (cases a) simp_all

lemma fless_asym: "fless a b \<Longrightarrow> \<not> fless b a"
  by (cases a; cases b) simp_all

lemma fge_trans: "b \<noteq> NaN \<Longrightarrow> \<not> fless a b \<Longrightarrow> \<not> fless b c \<Longrightarrow> \<not> fless a c"
  by (cases a; cases b; cases c) simp_all

lemma mset_insort_reverse: "mset (insort_reverse x ys) = add_mset x (mset ys)"
  by (induction ys) simp_all

lemma mset_sorted_reverse: "mset (sorted_reverse xs) = mset xs"
  by (induction xs) (simp_all add: mset_insort_reverse)

lemma set_insort_reverse: "set (insort_reverse x ys) = insert x (set ys)"
  by (induction ys) auto

lemma set_sorted_reverse: "set (sorted_reverse xs) = set xs"
  by (induction xs) (simp_all add: set_insort_reverse)

lemma length_sorted_reverse: "length (sorted_reverse xs) = length xs"
  by (metis mset_sorted_reverse size_mset)

lemma sorted_insort_reverse:
  assumes "sorted_wrt (\<lambda>p q. \<not> fless (snd p) (snd q)) ys"
    and "\<forall>p \<in> set ys. snd p \<noteq> NaN"
  shows "sorted_wrt (\<lambda>p q. \<not> fless (snd p) (snd q)) (insort_reverse x ys)"
  using assms
proof (induction ys)
  case Nil
  show ?case by simp
next
  case (Cons y ys)
  show ?case
  proof (cases "fless (snd x) (snd y)")
    case True
    have "sorted_wrt (\<lambda>p q. \<not> fless (snd p) (snd q)) (insort_reverse x ys)"
      using Cons by simp
    moreover have "\<forall>q \<in> set (insort_reverse x ys). \<not> fless (snd y) (snd q)"
      using Cons.prems(1) True by (auto simp: set_insort_reverse dest: fless_asym)
    ultimately show ?thesis using True by simp
  next
    case False
    have "\<forall>q \<in> set ys. \<not> fless (snd x) (snd q)"
    proof
      fix q assume "q \<in> set ys"
      with Cons.prems(1) have "\<not> fless (snd y) (snd q)" by simp
      moreover have "snd y \<noteq> NaN" using Cons.prems(2) by simp
      ultimately show "\<not> fless (snd x) (snd q)" using False fge_trans by blast
    qed
    then show ?thesis using False Cons.prems(1) by simp
  qed
qed

lemma sorted_sorted_reverse:
  "\<forall>p \<in> set xs. snd p \<noteq> NaN \<Longrightarrow>
   sorted_wrt (\<lambda>p q. \<not> fless (snd p) (snd q)) (sorted_reverse xs)"
  by (induction xs) (simp_all add: sorted_insort_reverse set_sorted_reverse)

lemma filter_insort_reverse:
  "filter (\<lambda>p. snd p = k) (insort_reverse x ys)
     = (if snd x = k then x # filter (\<lambda>p. snd p = k) ys else filter (\<lambda>p. snd p = k) ys)"
  by (induction ys) auto

lemma sorted_reverse_stable:
  "filter (\<lambda>p. snd p = k) (sorted_reverse xs) = filter (\<lambda>p. snd p = k) xs"
  by (induction xs) (simp_all add: filter_insort_reverse)

lemma py_slice_to_nonneg: "0 \<le> n \<Longrightarrow> py_slice_to xs n = take (nat n) xs"
  by (simp add: py_slice_to_def)


lemma engine_replies_length:
  "engine_replies lib h candidates e = Some (scores, e2) \<Longrightarrow> length scores = length candidates"
  by (induction candidates arbitrary: e scores)
     (auto split: prod.splits if_splits option.splits)

lemma score_candidates_replies:
  assumes "list_all (list_all fits_c_longlong) candidates"
    and "engine_replies lib (self_interaction_pointer self) candidates (estate w)
           = Some (scores, e2)"
  shows "score_candidates lib self candidates w
           = (\<lparr>estate = e2,
               calls = calls w
                 @ map (\<lambda>(c, s). Call_GetInteractionScore (self_interaction_pointer self) c 0 s)
                       (zip candidates scores)\<rparr>,
              Inr (zip candidates scores))"
  using assms
proof (induction candidates arbitrary: w scores)
  case Nil
  then show ?case by simp
next
  case (Cons c cs)
  let ?h = "self_interaction_pointer self"
  obtain e1 rc s where g: "GetInteractionScore lib (estate w) ?h c (Fin 0) = (e1, rc, s)"
    by (metis prod_cases3)
  from Cons.prems(2) g have rc: "rc = 0" by (auto split: if_splits)
  from Cons.prems(2) g rc obtain ss where
    rest: "engine_replies lib ?h cs e1 = Some (ss, e2)" and scores: "scores = s # ss"
    by (auto split: option.splits)
  let ?w1 = "logged w e1 (Call_GetInteractionScore ?h c 0 s)"
  have fitc: "list_all fits_c_longlong c" and fitcs: "list_all (list_all fits_c_longlong) cs"
    using Cons.prems(1) by simp_all
  have step: "get_interaction_score lib self c w = (?w1, Inr s)"
    using g rc fitc by (simp add: get_interaction_score_def Let_def)
  have "engine_replies lib ?h cs (estate ?w1) = Some (ss, e2)" using rest by simp
  from Cons.IH [OF fitcs this] step scores show ?case by simp
qed

text \<open>
  C7, amended: let the session be constructed, every candidate index be a signed 64-bit
  integer, the library answer every call with the status 0, and call \<open>scores\<close> the
  scores it computes, one for each candidate in turn, for that candidate. If none of
  them is NaN and \<open>n \<ge> 0\<close>, then \<open>get_interactions\<close> asks the library exactly once
  about each candidate, in order, releases the session, and returns
  \<open>min n (len candidates)\<close> indices and as many scores, whether \<open>n\<close> exceeds the number of
  candidates or not. The scores are non-increasing. The pairs returned are the first
  ones of a list \<open>ranked\<close> that is a rearrangement of the pairs of each candidate with
  its score, non-increasing in the score, with the pairs of any one score in their input
  order. The scenario with the scores 0.9, 0.9, 0.5, 0.2, 0.1 and \<open>n = 3\<close> is checked
  after it.
\<close>

theorem interactions_ranked:
  assumes init: "NativeEBMInteraction_init lib model_type n_classes features data w
                   = (w1, Inr self)"
    and fit: "list_all (list_all fits_c_longlong) candidates"
    and replies: "engine_replies lib (self_interaction_pointer self) candidates (estate w1)
                    = Some (scores, e2)"
    and nonan: "NaN \<notin> set scores"
    and n: "0 \<le> n"
  shows "\<exists>w' final_indices final_scores ranked.
           get_interactions lib n candidates model_type n_classes features data w
             = (w', Inr (final_indices, final_scores))
           \<and> calls w'
               = calls w1
                 @ map (\<lambda>(c, s). Call_GetInteractionScore (self_interaction_pointer self) c 0 s)
                       (zip candidates scores)
                 @ [Call_FreeInteraction (self_interaction_pointer self)]
           \<and> length scores = length candidates
           \<and> length final_indices = min (nat n) (length candidates)
           \<and> length final_scores = min (nat n) (length candidates)
           \<and> non_increasing final_scores
           \<and> mset ranked = mset (zip candidates scores)
           \<and> non_increasing (map snd ranked)
           \<and> (\<forall>k. filter (\<lambda>p. snd p = k) ranked
                    = filter (\<lambda>p. snd p = k) (zip candidates scores))
           \<and> zip final_indices final_scores = take (nat n) ranked"
proof -
  let ?h = "self_interaction_pointer self"
  let ?pairs = "zip candidates scores"
  let ?w2 = "\<lparr>estate = e2,
              calls = calls w1 @ map (\<lambda>(c, s). Call_GetInteractionScore ?h c 0 s) ?pairs\<rparr>"
  let ?ranked = "sorted_reverse ?pairs"
  let ?final = "take (nat n) ?ranked"
  have scored: "score_candidates lib self candidates w1 = (?w2, Inr ?pairs)"
    using fit replies by (rule score_candidates_replies)
  have len: "length scores = length candidates"
    using replies by (rule engine_replies_length)
  then have lenp: "length ?pairs = length candidates" by simp
  have nonan': "\<forall>p \<in> set ?pairs. snd p \<noteq> NaN"
    using nonan by (auto dest: set_zip_rightD)
  have "min (int (length ?ranked)) n \<ge> 0" using n by simp
  then have slice: "py_slice_to ?ranked (min (int (length ?ranked)) n) = ?final"
    by (simp add: py_slice_to_nonneg min_def)
  have run: "get_interactions lib n candidates model_type n_classes features data w
               = (close_interaction lib self ?w2, Inr (map fst ?final, map snd ?final))"
    using init scored slice by (simp add: get_interactions_def Let_def)
  have log: "calls (close_interaction lib self ?w2)
               = calls w1 @ map (\<lambda>(c, s). Call_GetInteractionScore ?h c 0 s) ?pairs
                 @ [Call_FreeInteraction ?h]"
    by (simp add: close_interaction_def)
  have l1: "length (map fst ?final) = min (nat n) (length candidates)"
    and l2: "length (map snd ?final) = min (nat n) (length candidates)"
    using lenp by (simp_all add: length_sorted_reverse min.commute)
  have srt: "sorted_wrt (\<lambda>p q. \<not> fless (snd p) (snd q)) ?ranked"
    using nonan' by (rule sorted_sorted_reverse)
  then have s1: "non_increasing (map snd ?ranked)"
    by (simp add: non_increasing_def sorted_wrt_map)
  have "sorted_wrt (\<lambda>p q. \<not> fless (snd p) (snd q)) ?final"
    using srt by (rule sorted_wrt_take)
  then have s2: "non_increasing (map snd ?final)"
    by (simp add: non_increasing_def sorted_wrt_map)
  have perm: "mset ?ranked = mset ?pairs"
    by (rule mset_sorted_reverse)
  have stable: "\<forall>k. filter (\<lambda>p. snd p = k) ?ranked = filter (\<lambda>p. snd p = k) ?pairs"
    by (simp add: sorted_reverse_stable)
  have z: "zip (map fst ?final) (map snd ?final) = ?final"
    by (simp add: zip_map_fst_snd)
  show ?thesis
    apply (rule exI [of _ "close_interaction lib self ?w2"])
    apply (rule exI [of _ "map fst ?final"])
    apply (rule exI [of _ "map snd ?final"])
    apply (rule exI [of _ ?ranked])
    apply (intro conjI run log len l1 l2 s2 perm s1 stable z)
    done
qed

theorem interactions_ranked_witness:
  "\<exists>w' final_indices final_scores.
     get_interactions (script_lib 7) 3 example_candidates ''regression'' 0 four_features ()
       (script_world example_scores) = (w', Inr (final_indices, final_scores))
     \<and> final_indices = [[0, 1], [0, 2], [1, 2]]
     \<and> final_scores = [Fin 0.9, Fin 0.9, Fin 0.5]
     \<and> length final_indices = min (nat 3) (length example_candidates)
     \<and> non_increasing final_scores"
proof -
  let ?self = "\<lparr>self_interaction_pointer = 7\<rparr>"
  let ?w1 = "\<lparr>estate = example_scores, calls = [Call_InitializeInteractionRegression 7]\<rparr>"
  let ?run = "get_interactions (script_lib 7) 3 example_candidates ''regression'' 0
                four_features () (script_world example_scores)"
  have init: "NativeEBMInteraction_init (script_lib 7) ''regression'' 0 four_features ()
                (script_world example_scores) = (?w1, Inr ?self)"
    by code_simp
  have fit: "list_all (list_all fits_c_longlong) example_candidates"
    by (simp add: example_candidates_def fits_c_longlong_def)
  have replies: "engine_replies (script_lib 7) (self_interaction_pointer ?self)
                   example_candidates (estate ?w1) = Some (example_scores, [])"
    by code_simp
  have nonan: "NaN \<notin> set example_scores"
    by (simp add: example_scores_def)
  have n: "(0::int) \<le> 3" by simp
  from interactions_ranked [OF init fit replies nonan n]
  obtain w' final_indices final_scores where
    run: "?run = (w', Inr (final_indices, final_scores))"
    and len: "length final_indices = min (nat 3) (length example_candidates)"
    and srt: "non_increasing final_scores"
    by blast
  have "snd ?run = Inr ([[0, 1], [0, 2], [1, 2]], [Fin 0.9, Fin 0.9, Fin 0.5])"
    by code_simp
  with run have fi: "final_indices = [[0, 1], [0, 2], [1, 2]]"
    and fs: "final_scores = [Fin 0.9, Fin 0.9, Fin 0.5]"
    by simp_all
  show ?thesis
    by (rule exI [of _ w'], rule exI [of _ final_indices], rule exI [of _ final_scores])
       (intro conjI run fi fs len srt)
qed

section \<open>C8: a failing library call ends the run, and the handle is released\<close>

lemma traced_refl [simp]: "traced w w eo"
  by (simp add: traced_def trace_ok_def)





lemma raised_simps [simp]: "raised (Inl e) = Some e" "raised (Inr x) = None"
  by (simp_all add: raised_def)













section \<open>C9: what constructing a session can raise\<close>

text \<open>
  C9, as stated: constructing a session raises an error of the invalid-argument kind
  (\<open>AttributeError\<close>) exactly when \<open>model_type\<close> is neither \<open>classification\<close> nor
  \<open>regression\<close>. It also does so for a recognised model type when a feature has an
  unrecognised type, since \<open>convert_features_to_c\<close> runs first.
\<close>

theorem unrecognized_feature_type_counterexample:
  "snd (NativeEBMTraining_init (script_lib 7) ''regression'' 0
          [\<lparr>ftype = ''ordinal'', has_missing = False, n_bins = 3\<rparr>] [\<lparr>attributes = [0]\<rparr>]
          () 0 0 (script_world []))
   = Inl (AttributeError unrecognized_feature_type)"
  by code_simp

lemma convert_features_to_c_cases:
  "(list_all valid_feature_type features \<and> (\<exists>ar. convert_features_to_c features = Inr ar))
   \<or> (\<not> list_all valid_feature_type features
       \<and> convert_features_to_c features = Inl (AttributeError unrecognized_feature_type))"
  by (induction features) (auto simp: valid_feature_type_def)

lemma convert_feature_combinations_to_c_cases:
  "(indexes_fit feature_combinations
    \<and> (\<exists>ar ix. convert_feature_combinations_to_c feature_combinations = Inr (ar, ix)))
   \<or> (\<not> indexes_fit feature_combinations
       \<and> convert_feature_combinations_to_c feature_combinations
           = Inl (OverflowError ''Python int too large to convert to C long''))"
  by (simp add: convert_feature_combinations_to_c_def indexes_fit_def Let_def)

lemma training_init_outcomes:
  assumes "NativeEBMTraining_init lib model_type n_classes features feature_combinations
             data n_inner_bags random_state w = (w', r)"
  shows "(is_AttributeError r \<longleftrightarrow>
            \<not> list_all valid_feature_type features
            \<or> (indexes_fit feature_combinations \<and> \<not> known_model_type model_type))
         \<and> (is_OverflowError r \<longleftrightarrow>
              list_all valid_feature_type features \<and> \<not> indexes_fit feature_combinations)
         \<and> (is_AttributeError r \<or> is_OverflowError r \<longrightarrow> w' = w)
         \<and> (is_MemoryError r \<longleftrightarrow>
              calls w' = calls w @ [Call_InitializeTrainingClassification 0]
              \<or> calls w' = calls w @ [Call_InitializeTrainingRegression 0])
         \<and> (is_MemoryError r \<longrightarrow>
              list_all valid_feature_type features \<and> indexes_fit feature_combinations
              \<and> known_model_type model_type)
         \<and> (\<forall>self. r = Inr self \<longrightarrow>
               self_model_pointer self \<noteq> 0
               \<and> (calls w' = calls w
                      @ [Call_InitializeTrainingClassification (self_model_pointer self)]
                   \<or> calls w' = calls w
                      @ [Call_InitializeTrainingRegression (self_model_pointer self)]))"
proof -
  from convert_features_to_c_cases [of features] show ?thesis
  proof (elim disjE conjE exE)
    fix ar
    assume ok: "list_all valid_feature_type features"
      and ar: "convert_features_to_c features = Inr ar"
    from convert_feature_combinations_to_c_cases [of feature_combinations] show ?thesis
    proof (elim disjE conjE exE)
      fix car ix
      assume fit: "indexes_fit feature_combinations"
        and c: "convert_feature_combinations_to_c feature_combinations = Inr (car, ix)"
      show ?thesis
        using assms ok ar fit c
        by (auto simp: NativeEBMTraining_init_def Let_def known_model_type_def
                       is_AttributeError_def is_MemoryError_def is_OverflowError_def
                 split: prod.splits if_splits)
    next
      assume nofit: "\<not> indexes_fit feature_combinations"
        and c: "convert_feature_combinations_to_c feature_combinations
                  = Inl (OverflowError ''Python int too large to convert to C long'')"
      show ?thesis
        using assms ok ar nofit c
        by (auto simp: NativeEBMTraining_init_def is_AttributeError_def is_MemoryError_def
                       is_OverflowError_def)
    qed
  next
    assume bad: "\<not> list_all valid_feature_type features"
      and e: "convert_features_to_c features = Inl (AttributeError unrecognized_feature_type)"
    show ?thesis
      using assms bad e
      by (auto simp: NativeEBMTraining_init_def is_AttributeError_def is_MemoryError_def
                     is_OverflowError_def)
  qed
qed

lemma interaction_init_outcomes:
  assumes "NativeEBMInteraction_init lib model_type n_classes features data w = (w', r)"
  shows "(is_AttributeError r \<longleftrightarrow>
            \<not> list_all valid_feature_type features \<or> \<not> known_model_type model_type)
         \<and> \<not> is_OverflowError r
         \<and> (is_AttributeError r \<longrightarrow> w' = w)
         \<and> (is_MemoryError r \<longleftrightarrow>
              calls w' = calls w @ [Call_InitializeInteractionClassification 0]
              \<or> calls w' = calls w @ [Call_InitializeInteractionRegression 0])
         \<and> (is_MemoryError r \<longrightarrow>
              list_all valid_feature_type features \<and> known_model_type model_type)
         \<and> (\<forall>self. r = Inr self \<longrightarrow>
               self_interaction_pointer self \<noteq> 0
               \<and> (calls w' = calls w
                      @ [Call_InitializeInteractionClassification (self_interaction_pointer self)]
                   \<or> calls w' = calls w
                      @ [Call_InitializeInteractionRegression (self_interaction_pointer self)]))"
proof -
  from convert_features_to_c_cases [of features] show ?thesis
  proof (elim disjE conjE exE)
    fix ar
    assume ok: "list_all valid_feature_type features"
      and ar: "convert_features_to_c features = Inr ar"
    show ?thesis
      using assms ok ar
      by (auto simp: NativeEBMInteraction_init_def Let_def known_model_type_def
                     is_AttributeError_def is_MemoryError_def is_OverflowError_def
               split: prod.splits if_splits)
  next
    assume bad: "\<not> list_all valid_feature_type features"
      and e: "convert_features_to_c features = Inl (AttributeError unrecognized_feature_type)"
    show ?thesis
      using assms bad e
      by (auto simp: NativeEBMInteraction_init_def is_AttributeError_def is_MemoryError_def
                     is_OverflowError_def)
  qed
qed

text \<open>
  C9, amended: constructing a training session raises \<open>AttributeError\<close> exactly when some
  feature's type is neither \<open>categorical\<close> nor \<open>continuous\<close>, or every feature index of
  the combinations is a signed 64-bit integer and \<open>model_type\<close> is neither
  \<open>classification\<close> nor \<open>regression\<close>; with recognised feature types and an index that
  is not a signed 64-bit integer it raises \<open>OverflowError\<close>, whatever \<open>model_type\<close> is;
  both without any library call. It raises \<open>MemoryError\<close> exactly when the library was
  asked for a handle and answered with the null handle, which happens only past those
  checks. A session that is constructed holds the handle the library answered with,
  which is not null. The same holds for an interaction session, which takes no feature
  combinations and so never raises \<open>OverflowError\<close>.
\<close>

theorem session_init_outcomes:
  assumes "NativeEBMTraining_init lib model_type n_classes features feature_combinations
             data n_inner_bags random_state w = (w', r)"
    and "NativeEBMInteraction_init lib model_type n_classes features data v = (v', q)"
  shows "((is_AttributeError r \<longleftrightarrow>
             \<not> list_all valid_feature_type features
             \<or> (indexes_fit feature_combinations \<and> \<not> known_model_type model_type))
          \<and> (is_OverflowError r \<longleftrightarrow>
               list_all valid_feature_type features \<and> \<not> indexes_fit feature_combinations)
          \<and> (is_AttributeError r \<or> is_OverflowError r \<longrightarrow> w' = w)
          \<and> (is_MemoryError r \<longleftrightarrow>
               calls w' = calls w @ [Call_InitializeTrainingClassification 0]
               \<or> calls w' = calls w @ [Call_InitializeTrainingRegression 0])
          \<and> (is_MemoryError r \<longrightarrow>
               list_all valid_feature_type features \<and> indexes_fit feature_combinations
               \<and> known_model_type model_type)
          \<and> (\<forall>self. r = Inr self \<longrightarrow>
                self_model_pointer self \<noteq> 0
                \<and> (calls w' = calls w
                       @ [Call_InitializeTrainingClassification (self_model_pointer self)]
                    \<or> calls w' = calls w
                       @ [Call_InitializeTrainingRegression (self_model_pointer self)])))
         \<and> ((is_AttributeError q \<longleftrightarrow>
                \<not> list_all valid_feature_type features \<or> \<not> known_model_type model_type)
             \<and> \<not> is_OverflowError q
             \<and> (is_AttributeError q \<longrightarrow> v' = v)
             \<and> (is_MemoryError q \<longleftrightarrow>
                  calls v' = calls v @ [Call_InitializeInteractionClassification 0]
                  \<or> calls v' = calls v @ [Call_InitializeInteractionRegression 0])
             \<and> (is_MemoryError q \<longrightarrow>
                  list_all valid_feature_type features \<and> known_model_type model_type)
             \<and> (\<forall>self. q = Inr self \<longrightarrow>
                   self_interaction_pointer self \<noteq> 0
                   \<and> (calls v' = calls v
                          @ [Call_InitializeInteractionClassification
                               (self_interaction_pointer self)]
                       \<or> calls v' = calls v
                          @ [Call_InitializeInteractionRegression
                               (self_interaction_pointer self)])))"
  using training_init_outcomes [OF assms(1)] interaction_init_outcomes [OF assms(2)]
  by (rule conjI)

theorem session_init_outcomes_witness:
  "is_MemoryError
     (snd (NativeEBMTraining_init (script_lib 0) ''regression'' 0 [example_feature 3]
             [\<lparr>attributes = [0]\<rparr>] () 0 0 (script_world [])))
   \<and> is_MemoryError
     (snd (NativeEBMInteraction_init (script_lib 0) ''regression'' 0 [example_feature 3] ()
             (script_world [])))
   \<and> is_AttributeError
     (snd (NativeEBMTraining_init (script_lib 7) ''ranking'' 0 [example_feature 3]
             [\<lparr>attributes = [0]\<rparr>] () 0 0 (script_world [])))
   \<and> is_AttributeError
     (snd (NativeEBMInteraction_init (script_lib 7) ''ranking'' 0 [example_feature 3] ()
             (script_world [])))
   \<and> is_OverflowError
     (snd (NativeEBMTraining_init (script_lib 7) ''ranking'' 0 [example_feature 3]
             [\<lparr>attributes = [2 ^ 63]\<rparr>] () 0 0 (script_world [])))
   \<and> (\<exists>self. snd (NativeEBMTraining_init (script_lib 7) ''classification'' 3
                      [example_feature 3] [\<lparr>attributes = [0]\<rparr>] () 0 0 (script_world []))
                = Inr self
              \<and> self_model_pointer self \<noteq> 0)"
proof -
  let ?t3 = "NativeEBMTraining_init (script_lib 7) ''classification'' 3 [example_feature 3]
               [\<lparr>attributes = [0]\<rparr>] () 0 0 (script_world [])"
  let ?i3 = "NativeEBMInteraction_init (script_lib 7) ''classification'' 3
               [example_feature 3] () (script_world [])"
  let ?s3 = "\<lparr>self_model_pointer = 7, self_model_type = ''classification'',
              self_n_classes = 3, self_features = [example_feature 3],
              self_feature_combinations = [\<lparr>attributes = [0]\<rparr>]\<rparr>"
  have t3: "?t3 = (fst ?t3, snd ?t3)" and i3: "?i3 = (fst ?i3, snd ?i3)"
    by simp_all
  have s3: "snd ?t3 = Inr ?s3" by code_simp
  from session_init_outcomes [OF t3 i3] s3
  have "self_model_pointer ?s3 \<noteq> 0" by blast
  with s3 have g: "\<exists>self. snd ?t3 = Inr self \<and> self_model_pointer self \<noteq> 0" by blast
  let ?t0 = "NativeEBMTraining_init (script_lib 0) ''regression'' 0 [example_feature 3]
               [\<lparr>attributes = [0]\<rparr>] () 0 0 (script_world [])"
  let ?i0 = "NativeEBMInteraction_init (script_lib 0) ''regression'' 0 [example_feature 3] ()
               (script_world [])"
  let ?t1 = "NativeEBMTraining_init (script_lib 7) ''ranking'' 0 [example_feature 3]
               [\<lparr>attributes = [0]\<rparr>] () 0 0 (script_world [])"
  let ?i1 = "NativeEBMInteraction_init (script_lib 7) ''ranking'' 0 [example_feature 3] ()
               (script_world [])"
  let ?t2 = "NativeEBMTraining_init (script_lib 7) ''ranking'' 0 [example_feature 3]
               [\<lparr>attributes = [2 ^ 63]\<rparr>] () 0 0 (script_world [])"
  have t0: "?t0 = (fst ?t0, snd ?t0)" and i0: "?i0 = (fst ?i0, snd ?i0)"
    and t1: "?t1 = (fst ?t1, snd ?t1)" and i1: "?i1 = (fst ?i1, snd ?i1)"
    and t2: "?t2 = (fst ?t2, snd ?t2)"
    by simp_all
  have ct: "calls (fst ?t0) = calls (script_world []) @ [Call_InitializeTrainingRegression 0]"
    by code_simp
  have ci: "calls (fst ?i0) = calls (script_world []) @ [Call_InitializeInteractionRegression 0]"
    by code_simp
  have unknown: "\<not> known_model_type ''ranking''"
    by (simp add: known_model_type_def)
  have valid: "list_all valid_feature_type [example_feature 3]"
    by (simp add: valid_feature_type_def example_feature_def)
  have fit: "indexes_fit [\<lparr>attributes = [0]\<rparr>]"
    by (simp add: indexes_fit_def fits_c_longlong_def)
  have nofit: "\<not> indexes_fit [\<lparr>attributes = [2 ^ 63]\<rparr>]"
    by (simp add: indexes_fit_def fits_c_longlong_def)
  from session_init_outcomes [OF t0 i0] ct ci
  have a: "is_MemoryError (snd ?t0)" and b: "is_MemoryError (snd ?i0)"
    by blast+
  from session_init_outcomes [OF t1 i1] unknown fit
  have c: "is_AttributeError (snd ?t1)" and d: "is_AttributeError (snd ?i1)"
    by blast+
  from session_init_outcomes [OF t2 i1] valid nofit
  have e: "is_OverflowError (snd ?t2)"
    by blast
  from a b c d e g show ?thesis by (intro conjI)
qed

end
